theory Spec2Isabelle
  imports Complex_Main
begin

section \<open>Python values, exceptions and numbers\<close>

text \<open>
  The module \<^verbatim>\<open>tpot/builtins/meta_estimator.py\<close> is embedded function by function.
  Floating-point numbers are read as reals: every arithmetic operation of the model is
  exact, so the round-off of 64-bit floats is not represented, and no statement below
  speaks about it. Frames and arrays are lists of columns, exceptions the left summand
  of a sum type. The learners of scikit-learn and the
  wrapped estimator are collaborators of the module: they are parameters of the model
  (record \<open>sklearn\<close> below), and every call to them may raise.
\<close>

datatype error =
    TypeError | ValueError | KeyError | IndexError | AttributeError
  | UnboundLocalError | NotFittedError | LinAlgError

text \<open>
  The few Python objects whose dynamic type decides a branch: the result of
  \<^verbatim>\<open>check_if_any_float\<close> is tested for truth, the list \<^verbatim>\<open>values\<close> is compared with a
  string, and a tuple is handed to \<^verbatim>\<open>raise\<close>.
\<close>

datatype pyobj =
    PyNone
  | PyBool bool
  | PyStr string
  | PyList "pyobj list"
  | PyTuple "pyobj list"
  | PyExcClass error

fun truthy :: "pyobj \<Rightarrow> bool" where
  "truthy PyNone = False"
| "truthy (PyBool b) = b"
| "truthy (PyStr s) = (s \<noteq> [])"
| "truthy (PyList xs) = (xs \<noteq> [])"
| "truthy (PyTuple xs) = (xs \<noteq> [])"
| "truthy (PyExcClass e) = True"

text \<open>
  \<^verbatim>\<open>raise obj\<close> in Python 3: an exception class is instantiated and raised; any object
  that does not derive from \<^verbatim>\<open>BaseException\<close> (a tuple, for one) makes the statement
  itself fail with \<^verbatim>\<open>TypeError: exceptions must derive from BaseException\<close>.
\<close>

fun py_raise :: "pyobj \<Rightarrow> error" where
  "py_raise (PyExcClass e) = e"
| "py_raise obj = TypeError"

text \<open>\<^verbatim>\<open>int(a)\<close> on a number: truncation towards zero, without bound.\<close>

definition py_int :: "real \<Rightarrow> int" where
  "py_int a = (if 0 \<le> a then \<lfloor>a\<rfloor> else \<lceil>a\<rceil>)"

text \<open>
  \<^verbatim>\<open>astype(np.int32)\<close> on a \<^verbatim>\<open>float64\<close>: truncation towards zero when the truncated
  value is a 32-bit integer. Outside that range the conversion is undefined in C; numpy
  on x86-64 returns the least 32-bit integer (with a warning), and so does the model:
  \<open>3e9\<close> becomes \<open>-2147483648\<close>.
\<close>

definition in_int32 :: "int \<Rightarrow> bool" where
  "in_int32 k = (- (2 ^ 31) \<le> k \<and> k < 2 ^ 31)"

definition astype_int32 :: "real \<Rightarrow> int" where
  "astype_int32 a = (if in_int32 (py_int a) then py_int a else - (2 ^ 31))"

text \<open>\<^verbatim>\<open>np.rint\<close>: the nearest integer, a tie going to the even neighbour.\<close>

definition np_rint :: "real \<Rightarrow> real" where
  "np_rint x =
     (let f = \<lfloor>x\<rfloor>; d = x - of_int f
      in if d < 1 / 2 then of_int f
         else if 1 / 2 < d then of_int (f + 1)
         else if even f then of_int f else of_int (f + 1))"

section \<open>Frames and arrays\<close>

text \<open>
  A \<^verbatim>\<open>pd.DataFrame\<close> is its list of labelled columns, in column order; a two-dimensional
  \<^verbatim>\<open>np.ndarray\<close> is its list of columns (\<open>Array2\<close>); \<open>Array1\<close> is a one-dimensional
  array, which the module builds as \<^verbatim>\<open>np.array([])\<close>. All columns of one frame have the
  same length (the number of rows).
\<close>

type_synonym matrix = "real list list"
type_synonym dataframe = "(string \<times> real list) list"

datatype ndarray = Array1 "real list" | Array2 matrix

definition df_columns :: "dataframe \<Rightarrow> string list" where
  "df_columns df = map fst df"

definition df_values :: "dataframe \<Rightarrow> matrix" where
  "df_values df = map snd df"

text \<open>\<^verbatim>\<open>df.empty\<close>: no column, or no row.\<close>

definition df_empty :: "dataframe \<Rightarrow> bool" where
  "df_empty df = (case df of [] \<Rightarrow> True | c # rest \<Rightarrow> snd c = [])"

text \<open>
  \<^verbatim>\<open>df.drop(labels, axis=1)\<close> removes every column carrying one of the labels and raises
  \<^verbatim>\<open>KeyError\<close> when a label is not a column; \<^verbatim>\<open>df[labels]\<close> selects the columns in the
  order of the labels, with the same error.
\<close>

definition df_drop :: "string list \<Rightarrow> dataframe \<Rightarrow> error + dataframe" where
  "df_drop labels df =
     (if set labels \<subseteq> set (df_columns df)
      then Inr (filter (\<lambda>c. fst c \<notin> set labels) df)
      else Inl KeyError)"

definition df_getitem :: "dataframe \<Rightarrow> string list \<Rightarrow> error + dataframe" where
  "df_getitem df labels =
     (if set labels \<subseteq> set (df_columns df)
      then Inr (concat (map (\<lambda>l. filter (\<lambda>c. fst c = l) df) labels))
      else Inl KeyError)"

text \<open>
  Elementwise arithmetic of two one-dimensional arrays, with numpy's broadcasting of an
  operand of length one; any other mismatch of shapes raises \<^verbatim>\<open>ValueError\<close>.
  The operation \<open>f\<close> is the one of the reals, not of 64-bit floats: a sum or a difference
  of the model is the exact one, where numpy returns the nearest float.
\<close>

definition np_binop ::
  "(real \<Rightarrow> real \<Rightarrow> real) \<Rightarrow> real list \<Rightarrow> real list \<Rightarrow> error + real list" where
  "np_binop f a b =
     (if length a = length b then Inr (map2 f a b)
      else if length b = 1 then Inr (map (\<lambda>x. f x (hd b)) a)
      else if length a = 1 then Inr (map (\<lambda>y. f (hd a) y) b)
      else Inl ValueError)"

definition np_sub :: "real list \<Rightarrow> real list \<Rightarrow> error + real list" where
  "np_sub a b = np_binop (\<lambda>x y. x - y) a b"

definition np_add :: "real list \<Rightarrow> real list \<Rightarrow> error + real list" where
  "np_add a b = np_binop (\<lambda>x y. x + y) a b"

text \<open>\<^verbatim>\<open>M[:, col] = v\<close> for a matrix of \<open>n\<close> rows.\<close>

definition np_assign_col :: "nat \<Rightarrow> real list \<Rightarrow> error + real list" where
  "np_assign_col n v =
     (if length v = n then Inr v
      else if length v = 1 then Inr (replicate n (hd v))
      else Inl ValueError)"

text \<open>\<^verbatim>\<open>M[:, idx]\<close>.\<close>

definition np_column :: "matrix \<Rightarrow> nat \<Rightarrow> error + real list" where
  "np_column m idx = (if idx < length m then Inr (m ! idx) else Inl IndexError)"

definition np_size :: "ndarray \<Rightarrow> nat" where
  "np_size a = (case a of Array1 v \<Rightarrow> length v | Array2 m \<Rightarrow> sum_list (map length m))"

text \<open>
  \<^verbatim>\<open>np.hstack\<close> of two blocks. Two-dimensional blocks are joined column-wise (all blocks
  of this module are cut from one frame, so their row counts agree); a one-dimensional
  block next to a two-dimensional one is a dimension mismatch.
\<close>

definition np_hstack :: "ndarray \<Rightarrow> ndarray \<Rightarrow> error + ndarray" where
  "np_hstack a b =
     (case (a, b) of
        (Array2 m1, Array2 m2) \<Rightarrow> Inr (Array2 (m1 @ m2))
      | (Array1 v1, Array1 v2) \<Rightarrow> Inr (Array1 (v1 @ v2))
      | (Array1 v1, Array2 m2) \<Rightarrow> Inl ValueError
      | (Array2 m1, Array1 v2) \<Rightarrow> Inl ValueError)"

section \<open>Fitted models and learners\<close>

text \<open>
  A fitted \<^verbatim>\<open>LinearRegression\<close> is its \<^verbatim>\<open>predict\<close> method; a fitted
  \<^verbatim>\<open>LogisticRegression\<close> is its attribute \<^verbatim>\<open>classes_\<close> (integer labels: the per-column
  classifiers are fitted on \<^verbatim>\<open>astype(np.int32)\<close>, the outcome classifier on the integer
  classes the docstring of \<^verbatim>\<open>fit\<close> prescribes) and its methods \<^verbatim>\<open>predict_proba\<close> (one
  column of probabilities per class) and \<^verbatim>\<open>predict\<close>.
\<close>

datatype LinearRegression =
  LinearRegression (lr_predict: "ndarray \<Rightarrow> error + real list")

datatype LogisticRegression =
  LogisticRegression
    (clf_classes: "int list")
    (clf_predict_proba: "ndarray \<Rightarrow> error + matrix")
    (clf_predict: "ndarray \<Rightarrow> error + real list")

datatype model =
    Linear LinearRegression
  | Logistic LogisticRegression
  | UnfittedLinear
  | UnfittedLogistic

fun model_predict :: "model \<Rightarrow> ndarray \<Rightarrow> error + real list" where
  "model_predict (Linear regr) X = lr_predict regr X"
| "model_predict (Logistic clf) X = clf_predict clf X"
| "model_predict UnfittedLinear X = Inl NotFittedError"
| "model_predict UnfittedLogistic X = Inl NotFittedError"

fun model_predict_proba :: "model \<Rightarrow> ndarray \<Rightarrow> error + matrix" where
  "model_predict_proba (Linear regr) X = Inl AttributeError"
| "model_predict_proba (Logistic clf) X = clf_predict_proba clf X"
| "model_predict_proba UnfittedLinear X = Inl AttributeError"
| "model_predict_proba UnfittedLogistic X = Inl NotFittedError"

fun model_classes :: "model \<Rightarrow> error + int list" where
  "model_classes (Logistic clf) = Inr (clf_classes clf)"
| "model_classes m = Inl AttributeError"

text \<open>
  The learners: \<^verbatim>\<open>LinearRegression().fit\<close>, \<^verbatim>\<open>LogisticRegression(penalty='none',
  solver='lbfgs', multi_class='auto').fit\<close>, and the \<^verbatim>\<open>fit\<close> and \<^verbatim>\<open>predict\<close> of the wrapped
  estimator, whose state has the type \<open>'e\<close>.
\<close>

record 'e sklearn =
  LinearRegression_fit :: "ndarray \<Rightarrow> real list \<Rightarrow> error + LinearRegression"
  LogisticRegression_fit :: "ndarray \<Rightarrow> int list \<Rightarrow> error + LogisticRegression"
  estimator_fit :: "'e \<Rightarrow> ndarray \<Rightarrow> real list \<Rightarrow> error + 'e"
  estimator_predict :: "'e \<Rightarrow> ndarray \<Rightarrow> error + real list"

section \<open>The column-type check\<close>

text \<open>
  \<^verbatim>\<open>check_if_any_float\<close>: the loop sets \<^verbatim>\<open>if_any_float\<close> and breaks at the first value
  that \<^verbatim>\<open>int\<close> changes; the function then ends in a bare \<^verbatim>\<open>return\<close>, so its value is
  \<^verbatim>\<open>None\<close>.
\<close>

fun if_any_float_loop :: "real list \<Rightarrow> bool \<Rightarrow> bool" where
  "if_any_float_loop [] if_any_float = if_any_float"
| "if_any_float_loop (a # rest) if_any_float =
     (if of_int (py_int a) \<noteq> a then True else if_any_float_loop rest if_any_float)"

definition check_if_any_float :: "real list \<Rightarrow> pyobj" where
  "check_if_any_float snp_array =
     (let if_any_float = if_any_float_loop snp_array False in PyNone)"

text \<open>The tag \<^verbatim>\<open>value\<close> that \<^verbatim>\<open>X_adj_fit\<close> derives from the check (lines 83 to 86).\<close>

definition column_value :: "real list \<Rightarrow> string" where
  "column_value X_train_col =
     (if truthy (check_if_any_float X_train_col) then ''dosage'' else ''ternary'')"

section \<open>Adjusting the columns of a feature block\<close>

text \<open>
  The inner loop of both adjusters,
  \<^verbatim>\<open>for gt_idx, gt in enumerate(classes_): col_adj = col_adj - int(gt)*proba[:, gt_idx]\<close>.
\<close>

fun subtract_classes ::
  "real list \<Rightarrow> matrix \<Rightarrow> nat \<Rightarrow> int list \<Rightarrow> error + real list" where
  "subtract_classes col_adj proba gt_idx [] = Inr col_adj"
| "subtract_classes col_adj proba gt_idx (gt # rest) =
     (case np_column proba gt_idx of
        Inl e \<Rightarrow> Inl e
      | Inr p \<Rightarrow>
          (case np_sub col_adj (map (\<lambda>q. of_int gt * q) p) of
             Inl e \<Rightarrow> Inl e
           | Inr col_adj' \<Rightarrow> subtract_classes col_adj' proba (Suc gt_idx) rest))"

text \<open>
  The column loop of \<^verbatim>\<open>X_adj_fit\<close>. The accumulator holds the columns of
  \<^verbatim>\<open>X_train_adj\<close> assigned so far, \<^verbatim>\<open>col_est\<close> and \<^verbatim>\<open>values\<close>. The guard of the
  regression branch is the source's \<^verbatim>\<open>values == 'dosage'\<close>: the list, not the tag.
\<close>

fun X_adj_fit_loop ::
  "'e sklearn \<Rightarrow> ndarray \<Rightarrow> real list list \<Rightarrow> matrix \<times> model list \<times> string list
     \<Rightarrow> error + matrix \<times> model list \<times> string list" where
  "X_adj_fit_loop sk C_train [] acc = Inr acc"
| "X_adj_fit_loop sk C_train (X_train_col # rest) (X_train_adj, col_est, values0) =
     (let value = column_value X_train_col;
          values = values0 @ [value]
      in if PyList (map PyStr values) = PyStr ''dosage'' then
           (case LinearRegression_fit sk C_train X_train_col of
              Inl e \<Rightarrow> Inl e
            | Inr regr \<Rightarrow>
           (case lr_predict regr C_train of
              Inl e \<Rightarrow> Inl e
            | Inr est_pred \<Rightarrow>
           (case np_sub X_train_col est_pred of
              Inl e \<Rightarrow> Inl e
            | Inr d \<Rightarrow>
           (case np_assign_col (length X_train_col) d of
              Inl e \<Rightarrow> Inl e
            | Inr c \<Rightarrow>
                X_adj_fit_loop sk C_train rest
                  (X_train_adj @ [c], col_est @ [Linear regr], values)))))
         else
           (case LogisticRegression_fit sk C_train (map astype_int32 X_train_col) of
              Inl e \<Rightarrow> Inl e
            | Inr clf \<Rightarrow>
           (case clf_predict_proba clf C_train of
              Inl e \<Rightarrow> Inl e
            | Inr clf_pred_proba \<Rightarrow>
           (case subtract_classes X_train_col clf_pred_proba 0 (clf_classes clf) of
              Inl e \<Rightarrow> Inl e
            | Inr X_train_col_adj \<Rightarrow>
           (case np_assign_col (length X_train_col) X_train_col_adj of
              Inl e \<Rightarrow> Inl e
            | Inr c \<Rightarrow>
                X_adj_fit_loop sk C_train rest
                  (X_train_adj @ [c], col_est @ [Logistic clf], values))))))"

definition X_adj_fit ::
  "'e sklearn \<Rightarrow> dataframe \<Rightarrow> ndarray \<Rightarrow> error + ndarray \<times> model list \<times> string list" where
  "X_adj_fit sk X_train C_train =
     (if df_empty X_train then Inr (Array2 (df_values X_train), [], [])
      else
        (case X_adj_fit_loop sk C_train (df_values X_train) ([], [], []) of
           Inl e \<Rightarrow> Inl e
         | Inr (X_train_adj, col_est, values) \<Rightarrow> Inr (Array2 X_train_adj, col_est, values)))"

text \<open>
  \<^verbatim>\<open>X_adj_predict\<close>: the loop runs over \<^verbatim>\<open>zip(values, col_est, range(n_columns))\<close>, so it
  ends with the shortest of the three; the columns it does not reach keep the zeros of
  \<^verbatim>\<open>np.zeros(X_test.shape)\<close>. Here \<^verbatim>\<open>values\<close> is the loop variable, one tag.
\<close>

fun X_adj_predict_loop ::
  "ndarray \<Rightarrow> string list \<Rightarrow> model list \<Rightarrow> real list list \<Rightarrow> matrix \<Rightarrow> error + matrix" where
  "X_adj_predict_loop C_test (values # vs) (est # ests) (X_test_col # rest) X_test_adj =
     (if PyStr values = PyStr ''dosage'' then
        (case model_predict est C_test of
           Inl e \<Rightarrow> Inl e
         | Inr est_pred \<Rightarrow>
        (case np_sub X_test_col est_pred of
           Inl e \<Rightarrow> Inl e
         | Inr d \<Rightarrow>
        (case np_assign_col (length X_test_col) d of
           Inl e \<Rightarrow> Inl e
         | Inr c \<Rightarrow> X_adj_predict_loop C_test vs ests rest (X_test_adj @ [c]))))
      else
        (case model_predict_proba est C_test of
           Inl e \<Rightarrow> Inl e
         | Inr clf_pred_proba \<Rightarrow>
        (case model_classes est of
           Inl e \<Rightarrow> Inl e
         | Inr classes \<Rightarrow>
        (case subtract_classes X_test_col clf_pred_proba 0 classes of
           Inl e \<Rightarrow> Inl e
         | Inr X_test_col_adj \<Rightarrow>
        (case np_assign_col (length X_test_col) X_test_col_adj of
           Inl e \<Rightarrow> Inl e
         | Inr c \<Rightarrow> X_adj_predict_loop C_test vs ests rest (X_test_adj @ [c]))))))"
| "X_adj_predict_loop C_test vs ests rest X_test_adj =
     Inr (X_test_adj @ map (\<lambda>c. replicate (length c) 0) rest)"

definition X_adj_predict ::
  "dataframe \<Rightarrow> ndarray \<Rightarrow> model list \<Rightarrow> string list \<Rightarrow> error + ndarray" where
  "X_adj_predict X_test C_test col_est values =
     (if df_empty X_test then Inr (Array2 (df_values X_test))
      else
        (case X_adj_predict_loop C_test values col_est (df_values X_test) [] of
           Inl e \<Rightarrow> Inl e
         | Inr X_test_adj \<Rightarrow> Inr (Array2 X_test_adj)))"

section \<open>The facade: configuration and fitted state\<close>

text \<open>
  The three shapes of \<^verbatim>\<open>subset\<close>: \<^verbatim>\<open>None\<close>, a list of feature names, a tuple of pairs
  (names of covariates, names of features).
\<close>

datatype subset =
    SubsetNone
  | SubsetList "string list"
  | SubsetTuple "(string list \<times> string list) list"

text \<open>
  \<^verbatim>\<open>MetaRegressor\<close> and \<^verbatim>\<open>MetaClassifier\<close> have the same attributes. The four set by
  \<^verbatim>\<open>__init__\<close> are always present; the others exist only once \<^verbatim>\<open>fit\<close> has assigned
  them, and \<open>None\<close> stands for an attribute that does not exist.
\<close>

record 'e facade =
  estimator :: 'e
  A :: "string list option"
  C :: "string list option"
  subset_param :: subset
  col_ests :: "model list list option"
  values_list :: "string list list option"
  sel_subset :: "string list option"
  B_est :: "model option"

definition init :: "'e \<Rightarrow> string list option \<Rightarrow> string list option \<Rightarrow> subset \<Rightarrow> 'e facade" where
  "init est a c sub =
     \<lparr>estimator = est, A = a, C = c, subset_param = sub, col_ests = None,
      values_list = None, sel_subset = None, B_est = None\<rparr>"

definition getattr :: "'a option \<Rightarrow> error + 'a" where
  "getattr v = (case v of None \<Rightarrow> Inl AttributeError | Some x \<Rightarrow> Inr x)"

definition first_item :: "'a list \<Rightarrow> error + 'a" where
  "first_item xs = (case xs of [] \<Rightarrow> Inl IndexError | x # rest \<Rightarrow> Inr x)"

text \<open>\<^verbatim>\<open>if names is not None: frame.drop(names, axis=1, inplace=True)\<close>.\<close>

definition drop_configured :: "string list option \<Rightarrow> dataframe \<Rightarrow> error + dataframe" where
  "drop_configured names df = (case names of None \<Rightarrow> Inr df | Some labels \<Rightarrow> df_drop labels df)"

text \<open>\<^verbatim>\<open>[a for a in names if a in frame.columns]\<close>.\<close>

definition comm_features :: "string list \<Rightarrow> dataframe \<Rightarrow> string list" where
  "comm_features names df = filter (\<lambda>a. a \<in> set (df_columns df)) names"

text \<open>\<^verbatim>\<open>X_subset_adj\<close> after one more block: the first block of non-zero size replaces the
  accumulator, later ones are stacked onto it.\<close>

definition stack_block :: "ndarray \<Rightarrow> ndarray \<Rightarrow> error + ndarray" where
  "stack_block X_subset_adj tmp_X_subset_adj =
     (if np_size X_subset_adj = 0 then Inr tmp_X_subset_adj
      else np_hstack X_subset_adj tmp_X_subset_adj)"

section \<open>fit\<close>

text \<open>
  The loop of \<^verbatim>\<open>fit\<close> over a tuple \<^verbatim>\<open>subset\<close>. Its state is \<^verbatim>\<open>X_subset_adj\<close>,
  \<^verbatim>\<open>self.sel_subset\<close>, \<^verbatim>\<open>self.col_ests\<close> and \<^verbatim>\<open>self.values_list\<close>; the state is returned
  also when an exception ends the loop, since the attributes keep what was appended.
\<close>

fun fit_pairs ::
  "'e sklearn \<Rightarrow> dataframe \<Rightarrow> dataframe \<Rightarrow> (string list \<times> string list) list
     \<Rightarrow> ndarray \<times> string list \<times> model list list \<times> string list list
     \<Rightarrow> (error + unit) \<times> ndarray \<times> string list \<times> model list list \<times> string list list" where
  "fit_pairs sk X X_train [] st = (Inr (), st)"
| "fit_pairs sk X X_train ((subC, ssubset) # rest) (X_subset_adj, sel, ces, vls) =
     (let comm = comm_features ssubset X_train;
          sel' = sel @ comm;
          st' = (X_subset_adj, sel', ces, vls)
      in case df_getitem X subC of
           Inl e \<Rightarrow> (Inl e, st')
         | Inr tmp_C_frame \<Rightarrow>
        (case df_getitem X_train comm of
           Inl e \<Rightarrow> (Inl e, st')
         | Inr X_train_subset \<Rightarrow>
        (case X_adj_fit sk X_train_subset (Array2 (df_values tmp_C_frame)) of
           Inl e \<Rightarrow> (Inl e, st')
         | Inr (tmp_X_subset_adj, col_est, values) \<Rightarrow>
        (case stack_block X_subset_adj tmp_X_subset_adj of
           Inl e \<Rightarrow> (Inl e, st')
         | Inr X_subset_adj' \<Rightarrow>
             fit_pairs sk X X_train rest
               (X_subset_adj', sel', ces @ [col_est], vls @ [values])))))"

text \<open>
  Lines 199 to 243 of \<^verbatim>\<open>MetaRegressor.fit\<close>, repeated as lines 389 to 433 of
  \<^verbatim>\<open>MetaClassifier.fit\<close>: the feature block \<^verbatim>\<open>X_train_adj\<close> and \<^verbatim>\<open>C_train\<close>.
\<close>

definition fit_features ::
  "'e sklearn \<Rightarrow> 'e facade \<Rightarrow> dataframe \<Rightarrow> (error + ndarray \<times> ndarray option) \<times> 'e facade" where
  "fit_features sk self X =
     (case drop_configured (A self) X of
        Inl e \<Rightarrow> (Inl e, self)
      | Inr X1 \<Rightarrow>
     (case drop_configured (C self) X1 of
        Inl e \<Rightarrow> (Inl e, self)
      | Inr X_train \<Rightarrow>
     (case C self of
        None \<Rightarrow> (Inr (Array2 (df_values X_train), None), self)
      | Some c_names \<Rightarrow>
          (let self1 = self\<lparr>col_ests := Some [], values_list := Some []\<rparr>
           in case df_getitem X c_names of
                Inl e \<Rightarrow> (Inl e, self1)
              | Inr C_frame \<Rightarrow>
                  (let C_train = Array2 (df_values C_frame)
                   in case subset_param self of
                        SubsetNone \<Rightarrow>
                          (case X_adj_fit sk X_train C_train of
                             Inl e \<Rightarrow> (Inl e, self1)
                           | Inr (X_train_adj, col_est, values) \<Rightarrow>
                               (Inr (X_train_adj, Some C_train),
                                self1\<lparr>col_ests := Some [col_est],
                                      values_list := Some [values]\<rparr>))
                      | SubsetList names \<Rightarrow>
                          (let comm = comm_features names X_train
                           in case df_getitem X_train comm of
                                Inl e \<Rightarrow> (Inl e, self1)
                              | Inr X_train_subset \<Rightarrow>
                             (case X_adj_fit sk X_train_subset C_train of
                                Inl e \<Rightarrow> (Inl e, self1)
                              | Inr (X_subset_adj, col_est, values) \<Rightarrow>
                             (case df_drop comm X_train of
                                Inl e \<Rightarrow> (Inl e, self1)
                              | Inr X_train_unsel \<Rightarrow>
                             (case np_hstack X_subset_adj (Array2 (df_values X_train_unsel)) of
                                Inl e \<Rightarrow> (Inl e, self1)
                              | Inr X_train_adj \<Rightarrow>
                                  (Inr (X_train_adj, Some C_train),
                                   self1\<lparr>col_ests := Some [col_est],
                                         values_list := Some [values]\<rparr>)))))
                      | SubsetTuple pairs \<Rightarrow>
                          (case fit_pairs sk X X_train pairs (Array1 [], [], [], []) of
                             (r, X_subset_adj, sel, ces, vls) \<Rightarrow>
                               (let self2 = self1\<lparr>sel_subset := Some sel, col_ests := Some ces,
                                                 values_list := Some vls\<rparr>
                                in case r of
                                     Inl e \<Rightarrow> (Inl e, self2)
                                   | Inr u \<Rightarrow>
                                  (case df_drop sel X_train of
                                     Inl e \<Rightarrow> (Inl e, self2)
                                   | Inr X_train_unsel \<Rightarrow>
                                  (case np_hstack X_subset_adj (Array2 (df_values X_train_unsel)) of
                                     Inl e \<Rightarrow> (Inl e, self2)
                                   | Inr X_train_adj \<Rightarrow>
                                       (Inr (X_train_adj, Some C_train), self2))))))))))"

text \<open>
  The covariate block \<^verbatim>\<open>B_train\<close> of \<^verbatim>\<open>fit\<close> (lines 245 to 252 and 435 to 444). The
  last branch reads \<^verbatim>\<open>A_train\<close>, a local variable that is bound only when \<^verbatim>\<open>A\<close> is
  configured.
\<close>

definition fit_covariates :: "'e facade \<Rightarrow> dataframe \<Rightarrow> ndarray option \<Rightarrow> error + ndarray" where
  "fit_covariates self X C_train =
     (case (case A self of
              None \<Rightarrow> Inr None
            | Some a_names \<Rightarrow>
                (case df_getitem X a_names of
                   Inl e \<Rightarrow> Inl e
                 | Inr A_frame \<Rightarrow> Inr (Some (Array2 (df_values A_frame))))) of
        Inl e \<Rightarrow> Inl e
      | Inr A_train \<Rightarrow>
          (case (A_train, C_train) of
             (Some a, None) \<Rightarrow> Inr a
           | (None, Some c) \<Rightarrow> Inr c
           | (Some a, Some c) \<Rightarrow> np_hstack a c
           | (None, None) \<Rightarrow> Inl UnboundLocalError))"

text \<open>
  \<^verbatim>\<open>MetaRegressor.fit\<close>. The first statement is
  \<^verbatim>\<open>raise(ValueError, "At least one of A_train and C_train must be specified")\<close>: the
  operand of \<^verbatim>\<open>raise\<close> is a tuple. The result is \<^verbatim>\<open>self\<close>, so the model returns the
  outcome together with the facade as the call leaves it. The keyword arguments
  \<^verbatim>\<open>**fit_params\<close> go to the wrapped estimator unchanged and are part of its
  \<open>estimator_fit\<close>.
\<close>

definition MetaRegressor_fit ::
  "'e sklearn \<Rightarrow> 'e facade \<Rightarrow> dataframe \<Rightarrow> real list \<Rightarrow> (error + unit) \<times> 'e facade" where
  "MetaRegressor_fit sk self X y =
     (if A self = None \<and> C self = None then
        (Inl (py_raise (PyTuple [PyExcClass ValueError,
                PyStr ''At least one of A_train and C_train must be specified''])), self)
      else
        (case fit_features sk self X of
           (Inl e, self1) \<Rightarrow> (Inl e, self1)
         | (Inr (X_train_adj, C_train), self1) \<Rightarrow>
        (case fit_covariates self1 X C_train of
           Inl e \<Rightarrow> (Inl e, self1)
         | Inr B_train \<Rightarrow>
        (case LinearRegression_fit sk B_train y of
           Inl e \<Rightarrow> (Inl e, self1\<lparr>B_est := Some UnfittedLinear\<rparr>)
         | Inr regr \<Rightarrow>
            (let self2 = self1\<lparr>B_est := Some (Linear regr)\<rparr>
             in case lr_predict regr B_train of
                  Inl e \<Rightarrow> (Inl e, self2)
                | Inr pi_train \<Rightarrow>
               (case np_sub y pi_train of
                  Inl e \<Rightarrow> (Inl e, self2)
                | Inr y_train_adj \<Rightarrow>
               (case estimator_fit sk (estimator self2) X_train_adj y_train_adj of
                  Inl e \<Rightarrow> (Inl e, self2)
                | Inr est \<Rightarrow> (Inr (), self2\<lparr>estimator := est\<rparr>))))))))"

text \<open>
  The loop \<^verbatim>\<open>for gt_idx, gt in enumerate(B_est.classes_): pi = pi + int(gt)*proba[:, gt_idx]\<close>
  of \<^verbatim>\<open>MetaClassifier\<close>.
\<close>

fun add_classes :: "real list \<Rightarrow> matrix \<Rightarrow> nat \<Rightarrow> int list \<Rightarrow> error + real list" where
  "add_classes pi_sum proba gt_idx [] = Inr pi_sum"
| "add_classes pi_sum proba gt_idx (gt # rest) =
     (case np_column proba gt_idx of
        Inl e \<Rightarrow> Inl e
      | Inr p \<Rightarrow>
          (case np_add pi_sum (map (\<lambda>q. of_int gt * q) p) of
             Inl e \<Rightarrow> Inl e
           | Inr pi_sum' \<Rightarrow> add_classes pi_sum' proba (Suc gt_idx) rest))"

text \<open>\<^verbatim>\<open>MetaClassifier.fit\<close>; the target \<^verbatim>\<open>y\<close> holds integer class labels.\<close>

definition MetaClassifier_fit ::
  "'e sklearn \<Rightarrow> 'e facade \<Rightarrow> dataframe \<Rightarrow> int list \<Rightarrow> (error + unit) \<times> 'e facade" where
  "MetaClassifier_fit sk self X y =
     (if A self = None \<and> C self = None then
        (Inl (py_raise (PyTuple [PyExcClass ValueError,
                PyStr ''At least one of A_train and C_train must be specified''])), self)
      else
        (case fit_features sk self X of
           (Inl e, self1) \<Rightarrow> (Inl e, self1)
         | (Inr (X_train_adj, C_train), self1) \<Rightarrow>
        (case fit_covariates self1 X C_train of
           Inl e \<Rightarrow> (Inl e, self1)
         | Inr B_train \<Rightarrow>
        (case LogisticRegression_fit sk B_train y of
           Inl e \<Rightarrow> (Inl e, self1\<lparr>B_est := Some UnfittedLogistic\<rparr>)
         | Inr clf \<Rightarrow>
            (let self2 = self1\<lparr>B_est := Some (Logistic clf)\<rparr>
             in case clf_predict_proba clf B_train of
                  Inl e \<Rightarrow> (Inl e, self2)
                | Inr B_est_pred_proba \<Rightarrow>
               (case add_classes (replicate (length y) 0) B_est_pred_proba 0 (clf_classes clf) of
                  Inl e \<Rightarrow> (Inl e, self2)
                | Inr pi_train \<Rightarrow>
               (case np_sub (map of_int y) pi_train of
                  Inl e \<Rightarrow> (Inl e, self2)
                | Inr y_train_adj \<Rightarrow>
               (case estimator_fit sk (estimator self2) X_train_adj y_train_adj of
                  Inl e \<Rightarrow> (Inl e, self2)
                | Inr est \<Rightarrow> (Inr (), self2\<lparr>estimator := est\<rparr>)))))))))"

section \<open>predict\<close>

text \<open>
  The loop of \<^verbatim>\<open>predict\<close> over \<^verbatim>\<open>zip(self.subset, self.col_ests, self.values_list)\<close>.
\<close>

fun predict_pairs ::
  "dataframe \<Rightarrow> dataframe \<Rightarrow> (string list \<times> string list) list \<Rightarrow> model list list
     \<Rightarrow> string list list \<Rightarrow> ndarray \<Rightarrow> error + ndarray" where
  "predict_pairs X X_test (sub # subs) (col_est # ces) (values # vls) X_subset_adj =
     (case df_getitem X (fst sub) of
        Inl e \<Rightarrow> Inl e
      | Inr tmp_C_frame \<Rightarrow>
     (case df_getitem X_test (comm_features (snd sub) X_test) of
        Inl e \<Rightarrow> Inl e
      | Inr X_test_subset \<Rightarrow>
     (case X_adj_predict X_test_subset (Array2 (df_values tmp_C_frame)) col_est values of
        Inl e \<Rightarrow> Inl e
      | Inr tmp_X_subset_adj \<Rightarrow>
     (case stack_block X_subset_adj tmp_X_subset_adj of
        Inl e \<Rightarrow> Inl e
      | Inr X_subset_adj' \<Rightarrow> predict_pairs X X_test subs ces vls X_subset_adj'))))"
| "predict_pairs X X_test subs ces vls X_subset_adj = Inr X_subset_adj"

text \<open>
  Lines 274 to 317 of \<^verbatim>\<open>MetaRegressor.predict\<close>, repeated as lines 473 to 516 of
  \<^verbatim>\<open>MetaClassifier.predict\<close>: the feature block \<^verbatim>\<open>X_test_adj\<close> and \<^verbatim>\<open>C_test\<close>. No
  statement of these lines assigns to an attribute of \<^verbatim>\<open>self\<close>. With a list
  \<^verbatim>\<open>subset\<close> the remainder is \<^verbatim>\<open>X_test.drop(self.subset, axis=1)\<close>: the configured
  list, not the names found in the frame.
\<close>

definition predict_features ::
  "'e facade \<Rightarrow> dataframe \<Rightarrow> error + ndarray \<times> ndarray option" where
  "predict_features self X =
     (case drop_configured (A self) X of
        Inl e \<Rightarrow> Inl e
      | Inr X1 \<Rightarrow>
     (case drop_configured (C self) X1 of
        Inl e \<Rightarrow> Inl e
      | Inr X_test \<Rightarrow>
     (case C self of
        None \<Rightarrow> Inr (Array2 (df_values X_test), None)
      | Some c_names \<Rightarrow>
     (case df_getitem X c_names of
        Inl e \<Rightarrow> Inl e
      | Inr C_frame \<Rightarrow>
          (let C_test = Array2 (df_values C_frame)
           in case subset_param self of
                SubsetNone \<Rightarrow>
                  (case getattr (col_ests self) of Inl e \<Rightarrow> Inl e | Inr ces \<Rightarrow>
                  (case first_item ces of Inl e \<Rightarrow> Inl e | Inr col_est \<Rightarrow>
                  (case getattr (values_list self) of Inl e \<Rightarrow> Inl e | Inr vls \<Rightarrow>
                  (case first_item vls of Inl e \<Rightarrow> Inl e | Inr values \<Rightarrow>
                  (case X_adj_predict X_test C_test col_est values of
                     Inl e \<Rightarrow> Inl e
                   | Inr X_test_adj \<Rightarrow> Inr (X_test_adj, Some C_test))))))
              | SubsetList names \<Rightarrow>
                  (case df_getitem X_test (comm_features names X_test) of
                     Inl e \<Rightarrow> Inl e
                   | Inr X_test_subset \<Rightarrow>
                  (case df_drop names X_test of
                     Inl e \<Rightarrow> Inl e
                   | Inr X_test_unsel \<Rightarrow>
                  (case getattr (col_ests self) of Inl e \<Rightarrow> Inl e | Inr ces \<Rightarrow>
                  (case first_item ces of Inl e \<Rightarrow> Inl e | Inr col_est \<Rightarrow>
                  (case getattr (values_list self) of Inl e \<Rightarrow> Inl e | Inr vls \<Rightarrow>
                  (case first_item vls of Inl e \<Rightarrow> Inl e | Inr values \<Rightarrow>
                  (case X_adj_predict X_test_subset C_test col_est values of
                     Inl e \<Rightarrow> Inl e
                   | Inr X_subset_adj \<Rightarrow>
                  (case np_hstack X_subset_adj (Array2 (df_values X_test_unsel)) of
                     Inl e \<Rightarrow> Inl e
                   | Inr X_test_adj \<Rightarrow> Inr (X_test_adj, Some C_test)))))))))
              | SubsetTuple pairs \<Rightarrow>
                  (case getattr (col_ests self) of Inl e \<Rightarrow> Inl e | Inr ces \<Rightarrow>
                  (case getattr (values_list self) of Inl e \<Rightarrow> Inl e | Inr vls \<Rightarrow>
                  (case predict_pairs X X_test pairs ces vls (Array1 []) of
                     Inl e \<Rightarrow> Inl e
                   | Inr X_subset_adj \<Rightarrow>
                  (case getattr (sel_subset self) of Inl e \<Rightarrow> Inl e | Inr sel \<Rightarrow>
                  (case df_drop sel X_test of
                     Inl e \<Rightarrow> Inl e
                   | Inr X_test_unsel \<Rightarrow>
                  (case np_hstack X_subset_adj (Array2 (df_values X_test_unsel)) of
                     Inl e \<Rightarrow> Inl e
                   | Inr X_test_adj \<Rightarrow> Inr (X_test_adj, Some C_test))))))))))))"

text \<open>
  The covariate block \<^verbatim>\<open>B_test\<close> of \<^verbatim>\<open>predict\<close> (lines 319 to 328 and 518 to 527), with
  the same \<^verbatim>\<open>raise\<close> of a tuple as \<^verbatim>\<open>fit\<close>.
\<close>

definition predict_covariates :: "'e facade \<Rightarrow> dataframe \<Rightarrow> ndarray option \<Rightarrow> error + ndarray" where
  "predict_covariates self X C_test =
     (case (case A self of
              None \<Rightarrow> Inr None
            | Some a_names \<Rightarrow>
                (case df_getitem X a_names of
                   Inl e \<Rightarrow> Inl e
                 | Inr A_frame \<Rightarrow> Inr (Some (Array2 (df_values A_frame))))) of
        Inl e \<Rightarrow> Inl e
      | Inr A_test \<Rightarrow>
          (if A self = None \<and> C self = None then
             Inl (py_raise (PyTuple [PyExcClass ValueError,
                    PyStr ''At least one of A_train and C_train must be specified'']))
           else
             (case (A_test, C_test) of
                (Some a, None) \<Rightarrow> Inr a
              | (None, Some c) \<Rightarrow> Inr c
              | (Some a, Some c) \<Rightarrow> np_hstack a c
              | (None, None) \<Rightarrow> Inl UnboundLocalError)))"

text \<open>
  \<^verbatim>\<open>MetaRegressor.predict\<close>. The model returns the prediction (or the exception)
  together with the facade as the call leaves it.
\<close>

definition MetaRegressor_predict ::
  "'e sklearn \<Rightarrow> 'e facade \<Rightarrow> dataframe \<Rightarrow> (error + real list) \<times> 'e facade" where
  "MetaRegressor_predict sk self X =
     (case predict_features self X of
        Inl e \<Rightarrow> (Inl e, self)
      | Inr (X_test_adj, C_test) \<Rightarrow>
     (case predict_covariates self X C_test of
        Inl e \<Rightarrow> (Inl e, self)
      | Inr B_test \<Rightarrow>
     (case getattr (B_est self) of
        Inl e \<Rightarrow> (Inl e, self)
      | Inr b \<Rightarrow>
     (case model_predict b B_test of
        Inl e \<Rightarrow> (Inl e, self)
      | Inr pi_test \<Rightarrow>
     (case estimator_predict sk (estimator self) X_test_adj of
        Inl e \<Rightarrow> (Inl e, self)
      | Inr y_test_adj_pred \<Rightarrow>
     (case np_add y_test_adj_pred pi_test of
        Inl e \<Rightarrow> (Inl e, self)
      | Inr y_pred \<Rightarrow> (Inr y_pred, self)))))))"

text \<open>Python's \<^verbatim>\<open>min\<close> and \<^verbatim>\<open>max\<close> of a sequence; the empty sequence raises.\<close>

definition py_min :: "int list \<Rightarrow> error + int" where
  "py_min xs = (case xs of [] \<Rightarrow> Inl ValueError | x # rest \<Rightarrow> Inr (fold min rest x))"

definition py_max :: "int list \<Rightarrow> error + int" where
  "py_max xs = (case xs of [] \<Rightarrow> Inl ValueError | x # rest \<Rightarrow> Inr (fold max rest x))"

text \<open>
  Lines 541 to 543: \<^verbatim>\<open>y_pred = np.rint(v)\<close>, then \<^verbatim>\<open>y_pred[np.where(v < min_c)] = min_c\<close>
  and \<^verbatim>\<open>y_pred[np.where(v > max_c)] = max_c\<close>, where \<^verbatim>\<open>v\<close> is \<^verbatim>\<open>y_test_adj_pred_pi\<close>.
\<close>

definition clamp_and_round :: "int \<Rightarrow> int \<Rightarrow> real list \<Rightarrow> real list" where
  "clamp_and_round min_c max_c y_test_adj_pred_pi =
     (let y_pred = map np_rint y_test_adj_pred_pi;
          y_pred1 = map2 (\<lambda>v r. if v < of_int min_c then of_int min_c else r)
                      y_test_adj_pred_pi y_pred;
          y_pred2 = map2 (\<lambda>v r. if of_int max_c < v then of_int max_c else r)
                      y_test_adj_pred_pi y_pred1
      in y_pred2)"

text \<open>
  \<^verbatim>\<open>MetaClassifier.predict\<close>. Line 529 computes \<^verbatim>\<open>predict_proba(B_test)[:, 1]\<close> into a
  variable that line 533 overwrites; the call and the indexing still happen.
\<close>

definition MetaClassifier_predict ::
  "'e sklearn \<Rightarrow> 'e facade \<Rightarrow> dataframe \<Rightarrow> (error + real list) \<times> 'e facade" where
  "MetaClassifier_predict sk self X =
     (case predict_features self X of
        Inl e \<Rightarrow> (Inl e, self)
      | Inr (X_test_adj, C_test) \<Rightarrow>
     (case predict_covariates self X C_test of
        Inl e \<Rightarrow> (Inl e, self)
      | Inr B_test \<Rightarrow>
     (case getattr (B_est self) of
        Inl e \<Rightarrow> (Inl e, self)
      | Inr b \<Rightarrow>
     (case model_predict_proba b B_test of
        Inl e \<Rightarrow> (Inl e, self)
      | Inr proba1 \<Rightarrow>
     (case np_column proba1 1 of
        Inl e \<Rightarrow> (Inl e, self)
      | Inr pi_unused \<Rightarrow>
     (case estimator_predict sk (estimator self) X_test_adj of
        Inl e \<Rightarrow> (Inl e, self)
      | Inr y_test_adj_pred \<Rightarrow>
     (case model_predict_proba b B_test of
        Inl e \<Rightarrow> (Inl e, self)
      | Inr B_est_pred_proba \<Rightarrow>
     (case model_classes b of
        Inl e \<Rightarrow> (Inl e, self)
      | Inr classes \<Rightarrow>
     (case add_classes (replicate (length y_test_adj_pred) 0) B_est_pred_proba 0 classes of
        Inl e \<Rightarrow> (Inl e, self)
      | Inr pi_test \<Rightarrow>
     (case np_add y_test_adj_pred pi_test of
        Inl e \<Rightarrow> (Inl e, self)
      | Inr y_test_adj_pred_pi \<Rightarrow>
     (case py_min classes of
        Inl e \<Rightarrow> (Inl e, self)
      | Inr min_c \<Rightarrow>
     (case py_max classes of
        Inl e \<Rightarrow> (Inl e, self)
      | Inr max_c \<Rightarrow>
          (Inr (clamp_and_round min_c max_c y_test_adj_pred_pi), self)))))))))))))"

section \<open>The adjustment as the specification words it\<close>


text \<open>Round to the nearest integer, then clip to the range of the classes.\<close>

definition round_then_clip :: "int \<Rightarrow> int \<Rightarrow> real \<Rightarrow> real" where
  "round_then_clip min_class max_class v = max (of_int min_class) (min (of_int max_class) (np_rint v))"

section \<open>Notions used in the statements\<close>

text \<open>
  What one round of a column loop does to a categorical column with the classifier
  \<open>clf\<close>: the probabilities are predicted on the covariate block, the classes are
  subtracted, and the result \<open>c\<close> is stored as the column of the adjusted block.
\<close>

definition column_replayed :: "ndarray \<Rightarrow> real list \<Rightarrow> LogisticRegression \<Rightarrow> real list \<Rightarrow> bool" where
  "column_replayed C_block column clf c =
     (\<exists>proba d. clf_predict_proba clf C_block = Inr proba \<and>
        subtract_classes column proba 0 (clf_classes clf) = Inr d \<and>
        np_assign_col (length column) d = Inr c)"

text \<open>
  What the loops over a tuple \<^verbatim>\<open>subset\<close> do with one pair, taken on its own: in \<^verbatim>\<open>fit\<close>
  the features of the pair that are columns of the feature block are adjusted against
  the covariates of the pair; in \<^verbatim>\<open>predict\<close> the stored models of the pair are replayed
  on them.
\<close>

definition adjust_pair ::
  "'e sklearn \<Rightarrow> dataframe \<Rightarrow> dataframe \<Rightarrow> string list \<times> string list
     \<Rightarrow> error + ndarray \<times> model list \<times> string list" where
  "adjust_pair sk X X_train pair =
     (case df_getitem X (fst pair) of
        Inl e \<Rightarrow> Inl e
      | Inr tmp_C_frame \<Rightarrow>
     (case df_getitem X_train (comm_features (snd pair) X_train) of
        Inl e \<Rightarrow> Inl e
      | Inr X_train_subset \<Rightarrow> X_adj_fit sk X_train_subset (Array2 (df_values tmp_C_frame))))"

definition replay_pair ::
  "dataframe \<Rightarrow> dataframe \<Rightarrow> string list \<times> string list \<Rightarrow> model list \<Rightarrow> string list
     \<Rightarrow> error + ndarray" where
  "replay_pair X X_test pair col_est tags =
     (case df_getitem X (fst pair) of
        Inl e \<Rightarrow> Inl e
      | Inr tmp_C_frame \<Rightarrow>
     (case df_getitem X_test (comm_features (snd pair) X_test) of
        Inl e \<Rightarrow> Inl e
      | Inr X_test_subset \<Rightarrow>
          X_adj_predict X_test_subset (Array2 (df_values tmp_C_frame)) col_est tags))"

text \<open>The columns of a block; the one-dimensional \<^verbatim>\<open>np.array([])\<close> has none.\<close>

definition array_columns :: "ndarray \<Rightarrow> matrix" where
  "array_columns a = (case a of Array1 v \<Rightarrow> [] | Array2 m \<Rightarrow> m)"

text \<open>A frame with at least one row: every column holds a value.\<close>

definition has_rows :: "dataframe \<Rightarrow> bool" where
  "has_rows df = list_all (\<lambda>c. snd c \<noteq> []) df"

section \<open>A small configuration for concrete runs\<close>

text \<open>
  A frame of three samples with the covariate \<open>N1\<close> and the features \<open>N6\<close>, \<open>N7\<close>, \<open>N8\<close>;
  a classifier that reports the classes 0, 1, 2 with the probabilities 1/2, 1/4, 1/4 for
  every sample; a regression that predicts 0 for every sample; and a wrapped estimator
  that memorises its training target. As in scikit-learn, the learners refuse a target
  whose length is not the number of samples.
\<close>

definition np_rows :: "ndarray \<Rightarrow> nat" where
  "np_rows a = (case a of Array1 v \<Rightarrow> length v | Array2 m \<Rightarrow> (case m of [] \<Rightarrow> 0 | c # rest \<Rightarrow> length c))"

definition example_X :: dataframe where
  "example_X =
     [(''N1'', [1, 2, 3]), (''N6'', [0, 2, 1]), (''N7'', [1, 1, 0]), (''N8'', [3 / 2, 0, 1 / 2])]"

definition example_clf :: LogisticRegression where
  "example_clf =
     LogisticRegression [0, 1, 2]
       (\<lambda>B. Inr [replicate (np_rows B) (1 / 2), replicate (np_rows B) (1 / 4),
                  replicate (np_rows B) (1 / 4)])
       (\<lambda>B. Inr (replicate (np_rows B) 0))"

definition example_regr :: LinearRegression where
  "example_regr = LinearRegression (\<lambda>B. Inr (replicate (np_rows B) 0))"

definition example_sklearn :: "real list sklearn" where
  "example_sklearn =
     \<lparr>LinearRegression_fit =
        (\<lambda>B y. if np_rows B = length y then Inr example_regr else Inl ValueError),
      LogisticRegression_fit =
        (\<lambda>B y. if np_rows B = length y then Inr example_clf else Inl ValueError),
      estimator_fit = (\<lambda>e Xa ya. Inr ya),
      estimator_predict = (\<lambda>e Xa. Inr e)\<rparr>"

text \<open>
  The classifier facade configured with the covariate \<open>N1\<close> and fitted on the frame with
  the target \<open>[3, 1, -1]\<close>.
\<close>

definition example_classifier :: "real list facade" where
  "example_classifier =
     snd (MetaClassifier_fit example_sklearn (init [] None (Some [''N1'']) SubsetNone)
            example_X [3, 1, - 1])"

text \<open>
  A second configuration, for a tuple \<^verbatim>\<open>subset\<close>: two covariates \<open>N1\<close> and \<open>N2\<close>, and a
  classifier with the classes 0 and 1 whose probability of class 1 is a tenth of the
  first covariate it is shown, so that an adjusted column shows which covariate it was
  adjusted against.
\<close>

definition first_column :: "ndarray \<Rightarrow> real list" where
  "first_column a = (case a of Array1 v \<Rightarrow> [] | Array2 m \<Rightarrow> (case m of [] \<Rightarrow> [] | c # rest \<Rightarrow> c))"

definition covariate_clf :: LogisticRegression where
  "covariate_clf =
     LogisticRegression [0, 1]
       (\<lambda>B. Inr [map (\<lambda>x. 1 - x / 10) (first_column B), map (\<lambda>x. x / 10) (first_column B)])
       (\<lambda>B. Inr (map (\<lambda>x. 0) (first_column B)))"

definition covariate_sklearn :: "real list sklearn" where
  "covariate_sklearn = example_sklearn\<lparr>LogisticRegression_fit := (\<lambda>B y. Inr covariate_clf)\<rparr>"

definition example_X2 :: dataframe where
  "example_X2 =
     [(''N1'', [1, 2]), (''N2'', [3, 4]), (''N6'', [0, 2]), (''N7'', [1, 1]),
      (''N8'', [3 / 2, 0]), (''N9'', [2, 2]), (''N10'', [5, 6])]"

definition example_pairs :: "(string list \<times> string list) list" where
  "example_pairs = [([''N1''], [''N6'', ''N7'']), ([''N2''], [''N8'', ''N9''])]"

definition example_partitioned :: "real list facade" where
  "example_partitioned = init [] None (Some [''N1'', ''N2'']) (SubsetTuple example_pairs)"

definition example_partitioned_fitted :: "real list facade" where
  "example_partitioned_fitted = snd (fit_features covariate_sklearn example_partitioned example_X2)"

text \<open>
  The regression facade with the flat \<^verbatim>\<open>subset\<close> \<open>[N6, N7, X9]\<close>, where \<open>X9\<close> is not a
  column of the frame, before and after \<^verbatim>\<open>fit\<close> on the target \<open>[5, 7, 9]\<close>.
\<close>

definition example_flat :: "real list facade" where
  "example_flat = init [] None (Some [''N1'']) (SubsetList [''N6'', ''N7'', ''X9''])"

definition example_flat_fitted :: "real list facade" where
  "example_flat_fitted = snd (MetaRegressor_fit example_sklearn example_flat example_X [5, 7, 9])"

text \<open>
  The same learners with a wrapped estimator whose predictions are its training target
  plus \<open>7/10\<close>, so that the reconstructed values are not integers.
\<close>

definition offset_sklearn :: "real list sklearn" where
  "offset_sklearn =
     example_sklearn\<lparr>estimator_predict := (\<lambda>e Xa. Inr (map (\<lambda>t. t + 7 / 10) e))\<rparr>"

section \<open>Unfolding rules for concrete runs\<close>

lemmas example_defs =
  example_X_def example_sklearn_def example_clf_def example_regr_def np_rows_def
  first_column_def covariate_clf_def covariate_sklearn_def example_X2_def example_pairs_def
  example_partitioned_def example_flat_def offset_sklearn_def

lemmas frame_defs =
  df_columns_def df_values_def df_empty_def df_drop_def df_getitem_def comm_features_def
  drop_configured_def

lemmas numpy_defs =
  np_binop_def np_sub_def np_add_def np_assign_col_def np_column_def np_size_def
  np_hstack_def stack_block_def

section \<open>The column-type check and the models stored by \<open>X_adj_fit\<close>\<close>

lemma column_value_ternary: "column_value c = ''ternary''"
  by (simp add: column_value_def check_if_any_float_def)

text \<open>One round of the column loop always takes the classifier branch.\<close>

lemma fit_loop_step:
  assumes "X_adj_fit_loop sk C_train (col # rest) (adj0, ests0, tags0) = Inr r"
  shows "\<exists>clf proba d c.
           LogisticRegression_fit sk C_train (map astype_int32 col) = Inr clf \<and>
           clf_predict_proba clf C_train = Inr proba \<and>
           subtract_classes col proba 0 (clf_classes clf) = Inr d \<and>
           np_assign_col (length col) d = Inr c \<and>
           X_adj_fit_loop sk C_train rest
             (adj0 @ [c], ests0 @ [Logistic clf], tags0 @ [''ternary'']) = Inr r"
  using assms by (simp add: column_value_ternary split: sum.splits)

lemma fit_loop_linear_irrelevant:
  "X_adj_fit_loop (sk\<lparr>LinearRegression_fit := f\<rparr>) C_train cols acc =
   X_adj_fit_loop sk C_train cols acc"
proof (induction cols arbitrary: acc)
  case Nil
  show ?case by simp
next
  case (Cons col cols)
  obtain a e t where acc: "acc = (a, e, t)" by (cases acc) auto
  show ?case unfolding acc
    by (simp add: column_value_ternary Cons.IH split: sum.splits)
qed

lemma fit_loop_models:
  "X_adj_fit_loop sk C_train cols (adj0, ests0, tags0) = Inr (adj, ests, tags) \<Longrightarrow>
   \<exists>clfs. ests = ests0 @ map Logistic clfs \<and> length clfs = length cols \<and>
          tags = tags0 @ replicate (length cols) ''ternary''"
proof (induction cols arbitrary: adj0 ests0 tags0)
  case Nil
  then show ?case by simp
next
  case (Cons col cols)
  from fit_loop_step[OF Cons.prems] obtain clf c where
    step: "X_adj_fit_loop sk C_train cols
             (adj0 @ [c], ests0 @ [Logistic clf], tags0 @ [''ternary'']) = Inr (adj, ests, tags)"
    by blast
  from Cons.IH[OF step] obtain clfs where
    "ests = (ests0 @ [Logistic clf]) @ map Logistic clfs" "length clfs = length cols"
    "tags = (tags0 @ [''ternary'']) @ replicate (length cols) ''ternary''" by blast
  then have "ests = ests0 @ map Logistic (clf # clfs) \<and>
             length (clf # clfs) = length (col # cols) \<and>
             tags = tags0 @ replicate (length (col # cols)) ''ternary''"
    by (simp add: replicate_app_Cons_same)
  then show ?case by blast
qed

lemma X_adj_fit_models:
  assumes "X_adj_fit sk X_train C_train = Inr (adj, ests, tags)"
  shows "\<exists>clfs. ests = map Logistic clfs \<and> tags = replicate (length clfs) ''ternary'' \<and>
           length clfs = (if df_empty X_train then 0 else length X_train)"
proof (cases "df_empty X_train")
  case True
  with assms show ?thesis by (simp add: X_adj_fit_def)
next
  case False
  with assms obtain m where
    "X_adj_fit_loop sk C_train (df_values X_train) ([], [], []) = Inr (m, ests, tags)"
    by (auto simp: X_adj_fit_def split: sum.splits)
  from fit_loop_models[OF this] False show ?thesis by (auto simp: df_values_def)
qed

lemma example_X_adj_fit:
  "X_adj_fit example_sklearn [(''N6'', [0, 2]), (''N8'', [3 / 2, 0])] (Array2 [[1, 2]]) =
     Inr (Array2 [[- 3 / 4, 5 / 4], [3 / 4, - 3 / 4]],
          [Logistic example_clf, Logistic example_clf], [''ternary'', ''ternary''])"
  by (simp add: X_adj_fit_def column_value_ternary example_defs frame_defs numpy_defs)

text \<open>
  C1. \<^verbatim>\<open>fit\<close> on a facade with \<^verbatim>\<open>A=None\<close> and \<^verbatim>\<open>C=None\<close> stops at its first statement
  and leaves the facade as it was (a facade fresh from \<^verbatim>\<open>__init__\<close> keeps no fitted
  attribute); but the exception is the \<^verbatim>\<open>TypeError\<close> of raising a tuple, not the
  \<^verbatim>\<open>ValueError\<close> the statement names. Both facades behave so.
\<close>

theorem C1_fit_without_covariates_raises_TypeError:
  "MetaRegressor_fit sk (self\<lparr>A := None, C := None\<rparr>) X y =
     (Inl TypeError, self\<lparr>A := None, C := None\<rparr>) \<and>
   MetaClassifier_fit sk (self\<lparr>A := None, C := None\<rparr>) X yc =
     (Inl TypeError, self\<lparr>A := None, C := None\<rparr>) \<and>
   MetaRegressor_fit sk (init est None None sub) X y =
     (Inl TypeError, init est None None sub) \<and>
   col_ests (init est None None sub) = None \<and>
   values_list (init est None None sub) = None \<and>
   sel_subset (init est None None sub) = None \<and>
   B_est (init est None None sub) = None"
  by (simp add: MetaRegressor_fit_def MetaClassifier_fit_def init_def)

text \<open>
  C2. On the column \<open>[0.0, 1.5, 2.0]\<close> the loop of \<^verbatim>\<open>check_if_any_float\<close> does find a
  value that differs from its integer part, yet the function returns \<^verbatim>\<open>None\<close> and the
  column is tagged \<open>ternary\<close> (categorical), exactly as the integer column
  \<open>[0, 1, 2, 1, 0]\<close> is: the classifier does not tell the two apart.
\<close>

theorem C2_float_column_is_tagged_ternary:
  "if_any_float_loop [0, 3 / 2, 2] False = True \<and>
   check_if_any_float [0, 3 / 2, 2] = PyNone \<and>
   column_value [0, 3 / 2, 2] = ''ternary'' \<and>
   if_any_float_loop [0, 1, 2, 1, 0] False = False \<and>
   column_value [0, 1, 2, 1, 0] = ''ternary''"
  by (simp add: column_value_def check_if_any_float_def py_int_def)

text \<open>
  C3. \<^verbatim>\<open>check_if_any_float\<close> returns \<^verbatim>\<open>None\<close> for every column, so the tag derived from
  it is \<open>ternary\<close> for every column, and the tag list that \<^verbatim>\<open>X_adj_fit\<close> returns holds
  \<open>ternary\<close> once per column of the block (and is empty for an empty block).
\<close>

theorem C3_every_tag_is_ternary:
  assumes "X_adj_fit sk X_train C_train = Inr (adj, ests, tags)"
  shows "check_if_any_float col = PyNone \<and> column_value col = ''ternary'' \<and>
         tags = replicate (if df_empty X_train then 0 else length X_train) ''ternary''"
  using X_adj_fit_models[OF assms] by (auto simp: check_if_any_float_def column_value_ternary)

theorem C3_every_tag_is_ternary_witness:
  "check_if_any_float [3 / 2, 0] = PyNone \<and> column_value [3 / 2, 0] = ''ternary'' \<and>
   [''ternary'', ''ternary''] =
     replicate (if df_empty [(''N6'', [0, 2]), (''N8'', [3 / 2, 0])] then 0
                else length [(''N6'', [0, 2 :: real]), (''N8'', [3 / 2, 0])]) ''ternary''"
  using C3_every_tag_is_ternary[OF example_X_adj_fit, of "[3 / 2, 0]"] by simp

text \<open>
  C9. \<^verbatim>\<open>predict\<close> returns the facade it was called on, whatever the input and whether
  it ends in a prediction or in an exception: \<^verbatim>\<open>col_ests\<close>, \<^verbatim>\<open>values_list\<close>,
  \<^verbatim>\<open>sel_subset\<close>, \<^verbatim>\<open>B_est\<close> and the wrapped estimator are only read.
\<close>

theorem C9_predict_leaves_facade_unchanged:
  "snd (MetaRegressor_predict sk self X) = self \<and>
   snd (MetaClassifier_predict sk self X) = self"
  by (simp add: MetaRegressor_predict_def MetaClassifier_predict_def
      split: sum.splits prod.splits)

text \<open>
  C10. The guard \<^verbatim>\<open>values == 'dosage'\<close> compares a list with a string and is false for
  every list; hence \<^verbatim>\<open>X_adj_fit\<close> never calls the linear learner (its result does not
  depend on it), and every model it stores is a fitted \<^verbatim>\<open>LogisticRegression\<close>, one per
  column of a non-empty block.
\<close>

theorem C10_every_stored_model_is_logistic:
  "PyList (map PyStr vs) \<noteq> PyStr ''dosage'' \<and>
   X_adj_fit (sk\<lparr>LinearRegression_fit := f\<rparr>) X_train C_train = X_adj_fit sk X_train C_train \<and>
   (X_adj_fit sk X_train C_train = Inr (adj, ests, tags) \<longrightarrow>
      (\<exists>clfs. ests = map Logistic clfs \<and>
              length clfs = (if df_empty X_train then 0 else length X_train)))"
  using X_adj_fit_models[of sk X_train C_train adj ests tags]
  by (auto simp: X_adj_fit_def fit_loop_linear_irrelevant)

theorem C10_every_stored_model_is_logistic_witness:
  "X_adj_fit example_sklearn [(''N6'', [0, 2]), (''N8'', [3 / 2, 0])] (Array2 [[1, 2]]) =
     Inr (Array2 [[- 3 / 4, 5 / 4], [3 / 4, - 3 / 4]],
          [Logistic example_clf, Logistic example_clf], [''ternary'', ''ternary'']) \<and>
   (\<exists>clfs. [Logistic example_clf, Logistic example_clf] = map Logistic clfs \<and>
      length clfs = 2)"
proof -
  note inst = C10_every_stored_model_is_logistic[where sk = example_sklearn
      and f = "LinearRegression_fit example_sklearn" and vs = "[]"
      and X_train = "[(''N6'', [0, 2]), (''N8'', [3 / 2, 0])]"
      and C_train = "Array2 [[1, 2]]" and adj = "Array2 [[- 3 / 4, 5 / 4], [3 / 4, - 3 / 4]]"
      and ests = "[Logistic example_clf, Logistic example_clf]"
      and tags = "[''ternary'', ''ternary'']"]
  from inst example_X_adj_fit
  have "\<exists>clfs. [Logistic example_clf, Logistic example_clf] = map Logistic clfs \<and>
          length clfs = (if df_empty [(''N6'', [0, 2]), (''N8'', [3 / 2, 0])] then 0
                         else length [(''N6'', [0, 2 :: real]), (''N8'', [3 / 2, 0])])"
    by blast
  then have "\<exists>clfs. [Logistic example_clf, Logistic example_clf] = map Logistic clfs \<and>
          length clfs = 2"
    by (simp add: df_empty_def numeral_2_eq_2)
  with example_X_adj_fit show ?thesis by blast
qed

section \<open>The adjustment of one categorical column\<close>





lemma fit_loop_columns:
  "X_adj_fit_loop sk C_train cols (adj0, ests0, tags0) = Inr (adj, ests, tags) \<Longrightarrow>
   \<exists>cs clfs. adj = adj0 @ cs \<and> ests = ests0 @ map Logistic clfs \<and>
     tags = tags0 @ replicate (length cols) ''ternary'' \<and>
     length cs = length cols \<and> length clfs = length cols \<and>
     (\<forall>i<length cols.
        LogisticRegression_fit sk C_train (map astype_int32 (cols ! i)) = Inr (clfs ! i) \<and>
        column_replayed C_train (cols ! i) (clfs ! i) (cs ! i))"
proof (induction cols arbitrary: adj0 ests0 tags0)
  case Nil
  then show ?case by simp
next
  case (Cons col cols)
  from fit_loop_step[OF Cons.prems] obtain clf c where
    fit: "LogisticRegression_fit sk C_train (map astype_int32 col) = Inr clf" and
    rep: "column_replayed C_train col clf c" and
    step: "X_adj_fit_loop sk C_train cols
             (adj0 @ [c], ests0 @ [Logistic clf], tags0 @ [''ternary'']) = Inr (adj, ests, tags)"
    unfolding column_replayed_def by blast
  from Cons.IH[OF step] obtain cs clfs where
    a: "adj = (adj0 @ [c]) @ cs" and e: "ests = (ests0 @ [Logistic clf]) @ map Logistic clfs" and
    t: "tags = (tags0 @ [''ternary'']) @ replicate (length cols) ''ternary''" and
    l: "length cs = length cols" "length clfs = length cols" and
    all: "\<forall>i<length cols.
        LogisticRegression_fit sk C_train (map astype_int32 (cols ! i)) = Inr (clfs ! i) \<and>
        column_replayed C_train (cols ! i) (clfs ! i) (cs ! i)"
    by blast
  have "\<forall>i<length (col # cols).
        LogisticRegression_fit sk C_train (map astype_int32 ((col # cols) ! i)) = Inr ((clf # clfs) ! i) \<and>
        column_replayed C_train ((col # cols) ! i) ((clf # clfs) ! i) ((c # cs) ! i)"
    using fit rep all by (auto simp: nth_Cons split: nat.splits)
  moreover have "adj = adj0 @ (c # cs)" "ests = ests0 @ map Logistic (clf # clfs)"
    "tags = tags0 @ replicate (length (col # cols)) ''ternary''"
    "length (c # cs) = length (col # cols)" "length (clf # clfs) = length (col # cols)"
    using a e t l by (simp_all add: replicate_app_Cons_same)
  ultimately show ?case by blast
qed












section \<open>Rounding and clipping the predictions of the classifier facade\<close>

lemma np_rint_int: "\<exists>k. np_rint x = of_int k"
proof -
  have "np_rint x = of_int \<lfloor>x\<rfloor> \<or> np_rint x = of_int (\<lfloor>x\<rfloor> + 1)"
    unfolding np_rint_def Let_def by metis
  then show ?thesis by blast
qed

lemma np_rint_near: "\<bar>np_rint x - x\<bar> \<le> 1 / 2"
  unfolding np_rint_def Let_def by (auto; linarith)

lemma np_rint_ge: "of_int m \<le> x \<Longrightarrow> of_int m \<le> np_rint x"
proof -
  assume a: "of_int m \<le> x"
  then have "m \<le> \<lfloor>x\<rfloor>" by (simp add: le_floor_iff)
  then have "(of_int m :: real) \<le> of_int \<lfloor>x\<rfloor>" by simp
  then show ?thesis unfolding np_rint_def Let_def by auto
qed

lemma np_rint_le: "x \<le> of_int m \<Longrightarrow> np_rint x \<le> of_int m"
proof -
  assume a: "x \<le> of_int m"
  show ?thesis
  proof (cases "x = of_int m")
    case True
    then show ?thesis by (simp add: np_rint_def)
  next
    case False
    with a have "x < of_int m" by simp
    then have "\<lfloor>x\<rfloor> < m" by (simp add: floor_less_iff)
    then have "\<lfloor>x\<rfloor> + 1 \<le> m" by simp
    then have "(of_int (\<lfloor>x\<rfloor> + 1) :: real) \<le> of_int m" by (simp only: of_int_le_iff)
    moreover have "(of_int \<lfloor>x\<rfloor> :: real) \<le> of_int (\<lfloor>x\<rfloor> + 1)" by simp
    ultimately show ?thesis unfolding np_rint_def Let_def by auto
  qed
qed

lemma py_min_Min: "py_min xs = Inr m \<Longrightarrow> xs \<noteq> [] \<and> m = Min (set xs)"
  by (cases xs) (auto simp: py_min_def Min.set_eq_fold[symmetric])

lemma py_max_Max: "py_max xs = Inr m \<Longrightarrow> xs \<noteq> [] \<and> m = Max (set xs)"
  by (cases xs) (auto simp: py_max_def Max.set_eq_fold[symmetric])

lemma clamp_and_round_length: "length (clamp_and_round lo hi v) = length v"
  by (simp add: clamp_and_round_def Let_def)

lemma clamp_and_round_nth:
  assumes "i < length v"
  shows "clamp_and_round lo hi v ! i =
     (if of_int hi < v ! i then of_int hi
      else if v ! i < of_int lo then of_int lo else np_rint (v ! i))"
  using assms by (simp add: clamp_and_round_def Let_def)

lemma clamp_is_round_then_clip:
  assumes "lo \<le> hi" "i < length v"
  shows "clamp_and_round lo hi v ! i = round_then_clip lo hi (v ! i)"
proof -
  have lohi: "(of_int lo :: real) \<le> of_int hi" using assms(1) by simp
  consider "of_int hi < v ! i" | "v ! i < of_int lo" | "of_int lo \<le> v ! i" "v ! i \<le> of_int hi"
    by linarith
  then show ?thesis
  proof cases
    case 1
    then have "of_int hi \<le> np_rint (v ! i)" by (intro np_rint_ge) simp
    with 1 lohi show ?thesis
      by (simp add: clamp_and_round_nth[OF assms(2)] round_then_clip_def)
  next
    case 2
    then have "np_rint (v ! i) \<le> of_int lo" by (intro np_rint_le) simp
    with 2 lohi show ?thesis
      by (simp add: clamp_and_round_nth[OF assms(2)] round_then_clip_def)
  next
    case 3
    then have "of_int lo \<le> np_rint (v ! i)" "np_rint (v ! i) \<le> of_int hi"
      by (auto intro: np_rint_ge np_rint_le)
    with 3 show ?thesis
      by (simp add: clamp_and_round_nth[OF assms(2)] round_then_clip_def)
  qed
qed

lemma predict_clf_tied:
  assumes "MetaClassifier_predict sk self X = (Inr y_pred, self')"
  shows "\<exists>clf X_test_adj C_test B_test y_test_adj_pred B_est_pred_proba pi_test v min_c max_c.
           B_est self = Some (Logistic clf) \<and>
           predict_features self X = Inr (X_test_adj, C_test) \<and>
           predict_covariates self X C_test = Inr B_test \<and>
           estimator_predict sk (estimator self) X_test_adj = Inr y_test_adj_pred \<and>
           clf_predict_proba clf B_test = Inr B_est_pred_proba \<and>
           add_classes (replicate (length y_test_adj_pred) 0) B_est_pred_proba 0 (clf_classes clf) =
             Inr pi_test \<and>
           np_add y_test_adj_pred pi_test = Inr v \<and>
           py_min (clf_classes clf) = Inr min_c \<and> py_max (clf_classes clf) = Inr max_c \<and>
           y_pred = clamp_and_round min_c max_c v"
proof -
  from assms obtain b where b: "B_est self = Some b"
    by (auto simp: MetaClassifier_predict_def getattr_def
        split: sum.splits prod.splits option.splits)
  from assms b obtain cl where cl: "model_classes b = Inr cl"
    by (auto simp: MetaClassifier_predict_def getattr_def split: sum.splits prod.splits)
  then obtain clf where clf: "b = Logistic clf" by (cases b) auto
  from assms show ?thesis unfolding b clf MetaClassifier_predict_def
    by (auto simp: getattr_def split: sum.splits prod.splits)
qed

lemma clamp_and_round_map:
  assumes "lo \<le> hi"
  shows "clamp_and_round lo hi v = map (round_then_clip lo hi) v"
  by (rule nth_equalityI)
    (simp_all add: clamp_and_round_length clamp_is_round_then_clip[OF assms])

lemma example_classifier_eq:
  "example_classifier =
     \<lparr>estimator = [9 / 4, 1 / 4, - 7 / 4], A = None, C = Some [''N1''], subset_param = SubsetNone,
      col_ests = Some [[Logistic example_clf, Logistic example_clf, Logistic example_clf]],
      values_list = Some [[''ternary'', ''ternary'', ''ternary'']],
      sel_subset = None, B_est = Some (Logistic example_clf)\<rparr>"
  by (simp add: example_classifier_def MetaClassifier_fit_def fit_features_def fit_covariates_def
      init_def X_adj_fit_def column_value_ternary example_defs frame_defs numpy_defs)

lemma example_classifier_offset_predict:
  "MetaClassifier_predict offset_sklearn example_classifier example_X =
     (Inr [2, 2, 0], example_classifier)"
  unfolding example_classifier_eq
  by (simp add: MetaClassifier_predict_def predict_features_def predict_covariates_def
      getattr_def first_item_def X_adj_predict_def py_min_def py_max_def clamp_and_round_def
      np_rint_def example_defs frame_defs numpy_defs)

text \<open>
  C8. \<^verbatim>\<open>MetaClassifier.predict\<close> reconstructs \<open>v\<close> as the prediction of the wrapped
  estimator on the adjusted features plus \<open>pi\<close>, the sum over the classes of the fitted
  outcome model of class value times predicted probability on the covariate block. What
  it returns is \<open>v\<close> rounded to the nearest integer and then clipped to the range between
  the least and the greatest class of that model: a value above the greatest class
  becomes that class, a value below the least class becomes that class, and a value in
  the range becomes its nearest integer, which lies in the range.
\<close>

theorem C8_predictions_rounded_then_clipped:
  assumes "MetaClassifier_predict sk self X = (Inr y_pred, self')"
  shows "\<exists>clf X_test_adj C_test B_test y_test_adj_pred B_est_pred_proba pi_test v.
           B_est self = Some (Logistic clf) \<and> clf_classes clf \<noteq> [] \<and>
           predict_features self X = Inr (X_test_adj, C_test) \<and>
           predict_covariates self X C_test = Inr B_test \<and>
           estimator_predict sk (estimator self) X_test_adj = Inr y_test_adj_pred \<and>
           clf_predict_proba clf B_test = Inr B_est_pred_proba \<and>
           add_classes (replicate (length y_test_adj_pred) 0) B_est_pred_proba 0 (clf_classes clf) =
             Inr pi_test \<and>
           np_add y_test_adj_pred pi_test = Inr v \<and>
           y_pred = map (round_then_clip (Min (set (clf_classes clf)))
                          (Max (set (clf_classes clf)))) v \<and>
           (\<forall>i<length v.
              (of_int (Max (set (clf_classes clf))) < v ! i \<longrightarrow>
                 y_pred ! i = of_int (Max (set (clf_classes clf)))) \<and>
              (v ! i < of_int (Min (set (clf_classes clf))) \<longrightarrow>
                 y_pred ! i = of_int (Min (set (clf_classes clf)))) \<and>
              (of_int (Min (set (clf_classes clf))) \<le> v ! i \<and>
               v ! i \<le> of_int (Max (set (clf_classes clf))) \<longrightarrow>
                 y_pred ! i = np_rint (v ! i) \<and> \<bar>y_pred ! i - v ! i\<bar> \<le> 1 / 2 \<and>
                 (\<exists>k. y_pred ! i = of_int k \<and> Min (set (clf_classes clf)) \<le> k \<and>
                      k \<le> Max (set (clf_classes clf)))))"
proof -
  from predict_clf_tied[OF assms] obtain clf X_test_adj C_test B_test y_test_adj_pred
    B_est_pred_proba pi_test v min_c max_c
    where b: "B_est self = Some (Logistic clf)"
      and pf: "predict_features self X = Inr (X_test_adj, C_test)"
      and pc: "predict_covariates self X C_test = Inr B_test"
      and e: "estimator_predict sk (estimator self) X_test_adj = Inr y_test_adj_pred"
      and pp: "clf_predict_proba clf B_test = Inr B_est_pred_proba"
      and ac: "add_classes (replicate (length y_test_adj_pred) 0) B_est_pred_proba 0
                 (clf_classes clf) = Inr pi_test"
      and v: "np_add y_test_adj_pred pi_test = Inr v"
      and mn: "py_min (clf_classes clf) = Inr min_c" and mx: "py_max (clf_classes clf) = Inr max_c"
      and y: "y_pred = clamp_and_round min_c max_c v"
    by blast
  let ?lo = "Min (set (clf_classes clf))" and ?hi = "Max (set (clf_classes clf))"
  from py_min_Min[OF mn] py_max_Max[OF mx] have
    ne: "clf_classes clf \<noteq> []" and lo: "min_c = ?lo" and hi: "max_c = ?hi" by auto
  from ne have lohi: "?lo \<le> ?hi" by (simp add: Min_le_iff)
  have ym: "y_pred = map (round_then_clip ?lo ?hi) v"
    unfolding y lo hi by (rule clamp_and_round_map[OF lohi])
  have "\<forall>i<length v.
        (of_int ?hi < v ! i \<longrightarrow> y_pred ! i = of_int ?hi) \<and>
        (v ! i < of_int ?lo \<longrightarrow> y_pred ! i = of_int ?lo) \<and>
        (of_int ?lo \<le> v ! i \<and> v ! i \<le> of_int ?hi \<longrightarrow>
           y_pred ! i = np_rint (v ! i) \<and> \<bar>y_pred ! i - v ! i\<bar> \<le> 1 / 2 \<and>
           (\<exists>k. y_pred ! i = of_int k \<and> ?lo \<le> k \<and> k \<le> ?hi))"
  proof (intro allI impI)
    fix i assume i: "i < length v"
    have nth: "y_pred ! i =
       (if of_int ?hi < v ! i then of_int ?hi
        else if v ! i < of_int ?lo then of_int ?lo else np_rint (v ! i))"
      unfolding y lo hi by (rule clamp_and_round_nth[OF i])
    have lohi': "(of_int ?lo :: real) \<le> of_int ?hi" using lohi by simp
    have inr: "\<exists>k. np_rint (v ! i) = of_int k \<and> ?lo \<le> k \<and> k \<le> ?hi"
      if "of_int ?lo \<le> v ! i" "v ! i \<le> of_int ?hi"
    proof -
      from np_rint_int obtain k where k: "np_rint (v ! i) = of_int k" by blast
      from np_rint_ge[OF that(1)] np_rint_le[OF that(2)] show ?thesis
        unfolding k by auto
    qed
    from nth lohi' inr np_rint_near[of "v ! i"]
    show "(of_int ?hi < v ! i \<longrightarrow> y_pred ! i = of_int ?hi) \<and>
        (v ! i < of_int ?lo \<longrightarrow> y_pred ! i = of_int ?lo) \<and>
        (of_int ?lo \<le> v ! i \<and> v ! i \<le> of_int ?hi \<longrightarrow>
           y_pred ! i = np_rint (v ! i) \<and> \<bar>y_pred ! i - v ! i\<bar> \<le> 1 / 2 \<and>
           (\<exists>k. y_pred ! i = of_int k \<and> ?lo \<le> k \<and> k \<le> ?hi))"
      by auto
  qed
  with b ne pf pc e pp ac v ym show ?thesis by blast
qed

theorem C8_predictions_rounded_then_clipped_witness:
  "MetaClassifier_predict offset_sklearn example_classifier example_X =
     (Inr [2, 2, 0], example_classifier) \<and>
   B_est example_classifier = Some (Logistic example_clf) \<and>
   Min (set (clf_classes example_clf)) = 0 \<and> Max (set (clf_classes example_clf)) = 2 \<and>
   np_add [59 / 20, 19 / 20, - 21 / 20] [3 / 4, 3 / 4, 3 / 4] = Inr [37 / 10, 17 / 10, - 3 / 10] \<and>
   [2, 2, 0] = map (round_then_clip 0 2) [37 / 10, 17 / 10, - 3 / 10]"
proof -
  from C8_predictions_rounded_then_clipped[OF example_classifier_offset_predict] obtain clf X_test_adj C_test B_test
    y_test_adj_pred B_est_pred_proba pi_test v where
    b: "B_est example_classifier = Some (Logistic clf)" and
    pf: "predict_features example_classifier example_X = Inr (X_test_adj, C_test)" and
    pc: "predict_covariates example_classifier example_X C_test = Inr B_test" and
    e: "estimator_predict offset_sklearn (estimator example_classifier) X_test_adj =
          Inr y_test_adj_pred" and
    pp: "clf_predict_proba clf B_test = Inr B_est_pred_proba" and
    ac: "add_classes (replicate (length y_test_adj_pred) 0) B_est_pred_proba 0 (clf_classes clf) =
           Inr pi_test" and
    v: "np_add y_test_adj_pred pi_test = Inr v" and
    ym: "[2, 2, 0] = map (round_then_clip (Min (set (clf_classes clf)))
                          (Max (set (clf_classes clf)))) v"
    by (elim exE conjE) (rule that)
  from b have clf: "clf = example_clf" by (simp add: example_classifier_eq)
  have mm: "Min (set (clf_classes example_clf)) = 0" "Max (set (clf_classes example_clf)) = 2"
    by (simp_all add: example_defs)
  from pf have ct: "C_test = Some (Array2 [[1, 2, 3]])"
    unfolding example_classifier_eq
    by (auto simp: predict_features_def getattr_def first_item_def X_adj_predict_def
        example_defs frame_defs numpy_defs split: sum.splits)
  from pc have bt: "B_test = Array2 [[1, 2, 3]]"
    unfolding example_classifier_eq ct
    by (simp add: predict_covariates_def)
  from e have ya: "y_test_adj_pred = [59 / 20, 19 / 20, - 21 / 20]"
    unfolding example_classifier_eq by (simp add: example_defs)
  from pp have pr: "B_est_pred_proba =
      [[1 / 2, 1 / 2, 1 / 2], [1 / 4, 1 / 4, 1 / 4], [1 / 4, 1 / 4, 1 / 4]]"
    unfolding clf bt by (auto simp: example_defs numeral_3_eq_3)
  from ac have pi: "pi_test = [3 / 4, 3 / 4, 3 / 4]"
    unfolding clf ya pr by (simp add: example_defs numpy_defs numeral_3_eq_3)
  from v have vv: "np_add [59 / 20, 19 / 20, - 21 / 20] [3 / 4, 3 / 4, 3 / 4] = Inr v"
    unfolding ya pi .
  then have v3: "v = [37 / 10, 17 / 10, - 3 / 10]" by (simp add: numpy_defs)
  from ym have r: "[2, 2, 0] = map (round_then_clip 0 2) [37 / 10, 17 / 10, - 3 / 10]"
    unfolding clf mm v3 by simp
  from example_classifier_offset_predict b clf mm vv v3 r show ?thesis by simp
qed

section \<open>The blocks of a tuple \<open>subset\<close>\<close>

lemma np_assign_col_length: "np_assign_col n v = Inr c \<Longrightarrow> length c = n"
  by (cases "length v = n") (auto simp: np_assign_col_def split: if_splits)

lemma column_replayed_length: "column_replayed C_block col clf c \<Longrightarrow> length c = length col"
  unfolding column_replayed_def by (blast dest: np_assign_col_length)

lemma X_adj_fit_block:
  assumes "X_adj_fit sk Xs C_block = Inr (blk, ce, vs)" "has_rows Xs"
  shows "\<exists>b. blk = Array2 b \<and> list_all (\<lambda>c. c \<noteq> []) b \<and> length b = length Xs"
proof (cases "df_empty Xs")
  case True
  with assms(2) have "Xs = []" by (cases Xs) (auto simp: df_empty_def has_rows_def)
  with assms(1) show ?thesis by (simp add: X_adj_fit_def df_empty_def df_values_def)
next
  case False
  with assms obtain adj where
    loop: "X_adj_fit_loop sk C_block (df_values Xs) ([], [], []) = Inr (adj, ce, vs)" and
    blk: "blk = Array2 adj"
    by (auto simp: X_adj_fit_def split: sum.splits)
  from fit_loop_columns[OF loop] obtain clfs where
    len: "length adj = length (df_values Xs)" and
    all: "\<forall>i<length (df_values Xs). column_replayed C_block (df_values Xs ! i) (clfs ! i) (adj ! i)"
    by auto
  have "adj ! i \<noteq> []" if "i < length adj" for i
  proof -
    from that len all have "length (adj ! i) = length (df_values Xs ! i)"
      by (auto dest: column_replayed_length)
    moreover from that len assms(2) have "df_values Xs ! i \<noteq> []"
      by (auto simp: has_rows_def df_values_def list_all_length)
    ultimately show ?thesis by auto
  qed
  then have "list_all (\<lambda>c. c \<noteq> []) adj" by (simp add: list_all_length)
  with blk len show ?thesis by (simp add: df_values_def)
qed

lemma stack_block_columns:
  assumes "acc = Array1 [] \<or> (\<exists>m. acc = Array2 m \<and> list_all (\<lambda>c. c \<noteq> []) m)"
  shows "stack_block acc (Array2 b) = Inr (Array2 (array_columns acc @ b))"
proof -
  from assms consider "acc = Array1 []" | m where "acc = Array2 m" "list_all (\<lambda>c. c \<noteq> []) m"
    by blast
  then show ?thesis
  proof cases
    case 1
    then show ?thesis by (simp add: stack_block_def np_size_def array_columns_def)
  next
    case 2
    show ?thesis
    proof (cases "m = []")
      case True
      with 2 show ?thesis by (simp add: stack_block_def np_size_def array_columns_def)
    next
      case False
      then obtain c m' where m: "m = c # m'" by (cases m) auto
      with 2 have "c \<noteq> []" by simp
      then have "np_size acc \<noteq> 0" unfolding 2(1) m by (cases c) (auto simp: np_size_def)
      then show ?thesis
        unfolding 2(1) by (simp add: stack_block_def array_columns_def np_hstack_def)
    qed
  qed
qed

lemma has_rows_getitem:
  "has_rows df \<Longrightarrow> df_getitem df names = Inr sub \<Longrightarrow> has_rows sub"
  by (auto simp: has_rows_def df_getitem_def list_all_iff split: if_splits)

lemma getitem_comm_features:
  "\<exists>sub. df_getitem df (comm_features names df) = Inr sub"
  by (auto simp: df_getitem_def comm_features_def)

lemma fit_pairs_blocks:
  "fit_pairs sk X X_train pairs (acc, sel, ces, vls) = (Inr (), acc', sel', ces', vls') \<Longrightarrow>
   has_rows X_train \<Longrightarrow>
   acc = Array1 [] \<or> (\<exists>m. acc = Array2 m \<and> list_all (\<lambda>c. c \<noteq> []) m) \<Longrightarrow>
   \<exists>blocks ce vl.
     length blocks = length pairs \<and> length ce = length pairs \<and> length vl = length pairs \<and>
     ces' = ces @ ce \<and> vls' = vls @ vl \<and>
     sel' = sel @ concat (map (\<lambda>p. comm_features (snd p) X_train) pairs) \<and>
     (\<forall>i<length pairs.
        adjust_pair sk X X_train (pairs ! i) = Inr (Array2 (blocks ! i), ce ! i, vl ! i)) \<and>
     (pairs = [] \<and> acc' = acc \<or>
      pairs \<noteq> [] \<and> acc' = Array2 (array_columns acc @ concat blocks) \<and>
        list_all (\<lambda>c. c \<noteq> []) (array_columns acc @ concat blocks))"
proof (induction pairs arbitrary: acc sel ces vls)
  case Nil
  then show ?case by simp
next
  case (Cons pair pairs)
  obtain subC ssubset where pair: "pair = (subC, ssubset)" by (cases pair) auto
  let ?comm = "comm_features ssubset X_train"
  from Cons.prems(1) obtain blk col_est tags acc1 where
    adj: "adjust_pair sk X X_train pair = Inr (blk, col_est, tags)" and
    stk: "stack_block acc blk = Inr acc1" and
    rec: "fit_pairs sk X X_train pairs (acc1, sel @ ?comm, ces @ [col_est], vls @ [tags]) =
            (Inr (), acc', sel', ces', vls')"
    unfolding pair by (auto simp: adjust_pair_def Let_def split: sum.splits)
  from adj obtain Xs Cf where
    Xs: "df_getitem X_train ?comm = Inr Xs" and
    fit: "X_adj_fit sk Xs (Array2 (df_values Cf)) = Inr (blk, col_est, tags)"
    unfolding pair by (auto simp: adjust_pair_def split: sum.splits)
  from X_adj_fit_block[OF fit has_rows_getitem[OF Cons.prems(2) Xs]] obtain b where
    b: "blk = Array2 b" "list_all (\<lambda>c. c \<noteq> []) b" by blast
  from stk stack_block_columns[OF Cons.prems(3), of b] b
  have acc1: "acc1 = Array2 (array_columns acc @ b)" by simp
  have ok1: "list_all (\<lambda>c. c \<noteq> []) (array_columns acc @ b)"
    using Cons.prems(3) b by (auto simp: array_columns_def)
  then have inv: "acc1 = Array1 [] \<or> (\<exists>m. acc1 = Array2 m \<and> list_all (\<lambda>c. c \<noteq> []) m)"
    using acc1 by blast
  from Cons.IH[OF rec Cons.prems(2) inv] obtain blocks ce vl where
    l: "length blocks = length pairs" "length ce = length pairs" "length vl = length pairs" and
    c: "ces' = (ces @ [col_est]) @ ce" "vls' = (vls @ [tags]) @ vl" and
    s: "sel' = (sel @ ?comm) @ concat (map (\<lambda>p. comm_features (snd p) X_train) pairs)" and
    all: "\<forall>i<length pairs.
        adjust_pair sk X X_train (pairs ! i) = Inr (Array2 (blocks ! i), ce ! i, vl ! i)" and
    fin: "pairs = [] \<and> acc' = acc1 \<or>
      pairs \<noteq> [] \<and> acc' = Array2 (array_columns acc1 @ concat blocks) \<and>
        list_all (\<lambda>c. c \<noteq> []) (array_columns acc1 @ concat blocks)"
    by blast
  have all': "\<forall>i<length (pair # pairs).
        adjust_pair sk X X_train ((pair # pairs) ! i) =
          Inr (Array2 ((b # blocks) ! i), (col_est # ce) ! i, (tags # vl) ! i)"
    using adj b all by (auto simp: nth_Cons split: nat.splits)
  have fin': "acc' = Array2 (array_columns acc @ concat (b # blocks)) \<and>
        list_all (\<lambda>c. c \<noteq> []) (array_columns acc @ concat (b # blocks))"
    using fin acc1 ok1 l by (auto simp: array_columns_def)
  have "length (b # blocks) = length (pair # pairs)" "length (col_est # ce) = length (pair # pairs)"
    "length (tags # vl) = length (pair # pairs)" "ces' = ces @ (col_est # ce)"
    "vls' = vls @ (tags # vl)"
    "sel' = sel @ concat (map (\<lambda>p. comm_features (snd p) X_train) (pair # pairs))"
    using l c s by (simp_all add: pair)
  with all' fin' show ?case by blast
qed

lemma predict_pairs_step:
  "predict_pairs X X_test (pair # pairs) (col_est # ces) (tags # vls) acc =
     (case replay_pair X X_test pair col_est tags of
        Inl e \<Rightarrow> Inl e
      | Inr blk \<Rightarrow>
          (case stack_block acc blk of
             Inl e \<Rightarrow> Inl e
           | Inr acc1 \<Rightarrow> predict_pairs X X_test pairs ces vls acc1))"
  by (simp add: replay_pair_def split: sum.splits)

lemma predict_loop_nonempty:
  "X_adj_predict_loop C_test tags ests cols acc = Inr adj \<Longrightarrow>
   list_all (\<lambda>c. c \<noteq> []) acc \<Longrightarrow> list_all (\<lambda>c. c \<noteq> []) cols \<Longrightarrow>
   list_all (\<lambda>c. c \<noteq> []) adj"
proof (induction cols arbitrary: tags ests acc)
  case Nil
  then show ?case by (cases tags; cases ests) auto
next
  case (Cons col rest)
  show ?case
  proof (cases "tags = [] \<or> ests = []")
    case True
    with Cons.prems show ?thesis
      by (cases tags; cases ests) (auto simp: list_all_iff)
  next
    case False
    then obtain v vs est ests' where eq: "tags = v # vs" "ests = est # ests'"
      by (cases tags; cases ests) auto
    from Cons.prems(1) obtain d c where
      c: "np_assign_col (length col) d = Inr c" and
      rec: "X_adj_predict_loop C_test vs ests' rest (acc @ [c]) = Inr adj"
      unfolding eq by (auto split: sum.splits if_splits)
    from np_assign_col_length[OF c] Cons.prems(3) have "c \<noteq> []" by auto
    with Cons.prems(2,3) Cons.IH[OF rec] show ?thesis by simp
  qed
qed

lemma X_adj_predict_block:
  assumes "X_adj_predict Xs C_block ce vs = Inr blk" "has_rows Xs"
  shows "\<exists>b. blk = Array2 b \<and> list_all (\<lambda>c. c \<noteq> []) b"
proof (cases "df_empty Xs")
  case True
  with assms(2) have "Xs = []" by (cases Xs) (auto simp: df_empty_def has_rows_def)
  with assms(1) show ?thesis by (auto simp: X_adj_predict_def df_empty_def df_values_def)
next
  case False
  with assms obtain adj where
    loop: "X_adj_predict_loop C_block vs ce (df_values Xs) [] = Inr adj" and
    blk: "blk = Array2 adj"
    by (auto simp: X_adj_predict_def split: sum.splits)
  from assms(2) have "list_all (\<lambda>c. c \<noteq> []) (df_values Xs)"
    by (simp add: has_rows_def df_values_def list_all_iff)
  from predict_loop_nonempty[OF loop _ this] blk show ?thesis by simp
qed

lemma predict_pairs_blocks:
  "predict_pairs X X_test pairs ces vls acc = Inr acc' \<Longrightarrow>
   has_rows X_test \<Longrightarrow> length ces = length pairs \<Longrightarrow> length vls = length pairs \<Longrightarrow>
   acc = Array1 [] \<or> (\<exists>m. acc = Array2 m \<and> list_all (\<lambda>c. c \<noteq> []) m) \<Longrightarrow>
   \<exists>blocks. length blocks = length pairs \<and>
     (\<forall>i<length pairs.
        replay_pair X X_test (pairs ! i) (ces ! i) (vls ! i) = Inr (Array2 (blocks ! i))) \<and>
     acc' = (if pairs = [] then acc else Array2 (array_columns acc @ concat blocks))"
proof (induction pairs arbitrary: ces vls acc)
  case Nil
  then show ?case by simp
next
  case (Cons pair pairs)
  from Cons.prems(3,4) obtain col_est ces' tags vls' where
    eq: "ces = col_est # ces'" "vls = tags # vls'" and
    l: "length ces' = length pairs" "length vls' = length pairs"
    by (cases ces; cases vls) auto
  from Cons.prems(1) obtain blk acc1 where
    rp: "replay_pair X X_test pair col_est tags = Inr blk" and
    stk: "stack_block acc blk = Inr acc1" and
    rec: "predict_pairs X X_test pairs ces' vls' acc1 = Inr acc'"
    unfolding eq predict_pairs_step by (auto split: sum.splits)
  from rp obtain Xs Cf where
    Xs: "df_getitem X_test (comm_features (snd pair) X_test) = Inr Xs" and
    pr: "X_adj_predict Xs (Array2 (df_values Cf)) col_est tags = Inr blk"
    by (auto simp: replay_pair_def split: sum.splits)
  from X_adj_predict_block[OF pr has_rows_getitem[OF Cons.prems(2) Xs]] obtain b where
    b: "blk = Array2 b" "list_all (\<lambda>c. c \<noteq> []) b" by blast
  from stk stack_block_columns[OF Cons.prems(5), of b] b
  have acc1: "acc1 = Array2 (array_columns acc @ b)" by simp
  have ok1: "list_all (\<lambda>c. c \<noteq> []) (array_columns acc @ b)"
    using Cons.prems(5) b by (auto simp: array_columns_def)
  then have inv: "acc1 = Array1 [] \<or> (\<exists>m. acc1 = Array2 m \<and> list_all (\<lambda>c. c \<noteq> []) m)"
    using acc1 by blast
  from Cons.IH[OF rec Cons.prems(2) l inv] obtain blocks where
    lb: "length blocks = length pairs" and
    all: "\<forall>i<length pairs.
        replay_pair X X_test (pairs ! i) (ces' ! i) (vls' ! i) = Inr (Array2 (blocks ! i))" and
    fin: "acc' = (if pairs = [] then acc1 else Array2 (array_columns acc1 @ concat blocks))"
    by blast
  have all': "\<forall>i<length (pair # pairs).
        replay_pair X X_test ((pair # pairs) ! i) (ces ! i) (vls ! i) = Inr (Array2 ((b # blocks) ! i))"
    using rp b all unfolding eq by (auto simp: nth_Cons split: nat.splits)
  have "acc' = Array2 (array_columns acc @ concat (b # blocks))"
    using fin acc1 lb by (auto simp: array_columns_def)
  with all' lb show ?case by (intro exI[of _ "b # blocks"]) simp
qed

lemma fit_features_tuple:
  assumes cfg: "subset_param self = SubsetTuple pairs" "C self = Some c_names"
    and X1: "drop_configured (A self) X = Inr X1"
    and Xt: "drop_configured (C self) X1 = Inr X_train"
    and fit: "fit_features sk self X = (Inr (X_train_adj, C_train), self')"
  shows "\<exists>acc sel ces vls unsel.
      fit_pairs sk X X_train pairs (Array1 [], [], [], []) = (Inr (), acc, sel, ces, vls) \<and>
      self' = self\<lparr>col_ests := Some ces, values_list := Some vls, sel_subset := Some sel\<rparr> \<and>
      df_drop sel X_train = Inr unsel \<and>
      np_hstack acc (Array2 (df_values unsel)) = Inr X_train_adj"
proof -
  obtain r acc sel ces vls where
    fp: "fit_pairs sk X X_train pairs (Array1 [], [], [], []) = (r, acc, sel, ces, vls)"
    by (metis prod_cases5)
  from fit show ?thesis
    by (auto simp: fit_features_def cfg X1 Xt[unfolded cfg] Let_def fp split: sum.splits)
qed

lemma predict_features_tuple:
  assumes cfg: "subset_param self = SubsetTuple pairs" "C self = Some c_names"
    and X1: "drop_configured (A self) X = Inr X1"
    and Xt: "drop_configured (C self) X1 = Inr X_test"
    and pr: "predict_features self X = Inr (X_test_adj, C_test)"
  shows "\<exists>acc sel ces vls unsel.
      col_ests self = Some ces \<and> values_list self = Some vls \<and> sel_subset self = Some sel \<and>
      predict_pairs X X_test pairs ces vls (Array1 []) = Inr acc \<and>
      df_drop sel X_test = Inr unsel \<and>
      np_hstack acc (Array2 (df_values unsel)) = Inr X_test_adj"
  using pr
  by (auto simp: predict_features_def cfg X1 Xt[unfolded cfg] Let_def getattr_def
      split: sum.splits option.splits)

lemma np_hstack_Array2:
  "np_hstack acc (Array2 m) = Inr (Array2 r) \<Longrightarrow> acc = Array2 (array_columns acc) \<and> r = array_columns acc @ m"
  by (cases acc) (auto simp: np_hstack_def array_columns_def)

text \<open>
  C5. With a tuple \<^verbatim>\<open>subset\<close> and a feature block of at least one row, a \<^verbatim>\<open>fit\<close> that
  gets through the feature adjustment has handled the pairs in their order: block \<open>i\<close>,
  its models and its tags are what adjusting the features of pair \<open>i\<close> against the
  covariates of pair \<open>i\<close> alone gives; the adjusted blocks stand in the feature matrix in
  pair order, followed by the columns that no pair selects; and \<^verbatim>\<open>sel_subset\<close> holds the
  selected names of all pairs. A later \<^verbatim>\<open>predict\<close> replays, pair by pair, the stored
  models of the pair against the covariates of the pair, and forms its remainder by
  dropping exactly the persisted names.
\<close>

theorem C5_partitioned_subset:
  assumes cfg: "subset_param self = SubsetTuple pairs" "C self = Some c_names"
    and X1: "drop_configured (A self) X = Inr X1"
    and Xt: "drop_configured (C self) X1 = Inr X_train"
    and rows: "has_rows X_train"
    and fit: "fit_features sk self X = (Inr (Array2 X_train_adj, C_train), self')"
  shows "\<exists>blocks ces vls unsel.
      col_ests self' = Some ces \<and> values_list self' = Some vls \<and>
      sel_subset self' = Some (concat (map (\<lambda>p. comm_features (snd p) X_train) pairs)) \<and>
      length blocks = length pairs \<and> length ces = length pairs \<and> length vls = length pairs \<and>
      (\<forall>i<length pairs.
         adjust_pair sk X X_train (pairs ! i) = Inr (Array2 (blocks ! i), ces ! i, vls ! i)) \<and>
      df_drop (concat (map (\<lambda>p. comm_features (snd p) X_train) pairs)) X_train = Inr unsel \<and>
      X_train_adj = concat blocks @ df_values unsel \<and>
      (\<forall>X' X1' X_test m ct.
         drop_configured (A self') X' = Inr X1' \<and> drop_configured (C self') X1' = Inr X_test \<and>
         has_rows X_test \<and> predict_features self' X' = Inr (Array2 m, ct) \<longrightarrow>
         (\<exists>pblocks unsel'.
            length pblocks = length pairs \<and>
            (\<forall>i<length pairs.
               replay_pair X' X_test (pairs ! i) (ces ! i) (vls ! i) = Inr (Array2 (pblocks ! i))) \<and>
            df_drop (concat (map (\<lambda>p. comm_features (snd p) X_train) pairs)) X_test = Inr unsel' \<and>
            m = concat pblocks @ df_values unsel'))"
proof -
  let ?sel = "concat (map (\<lambda>p. comm_features (snd p) X_train) pairs)"
  from fit_features_tuple[OF cfg X1 Xt fit] obtain acc sel ces vls unsel where
    fp: "fit_pairs sk X X_train pairs (Array1 [], [], [], []) = (Inr (), acc, sel, ces, vls)" and
    self': "self' = self\<lparr>col_ests := Some ces, values_list := Some vls, sel_subset := Some sel\<rparr>" and
    dr: "df_drop sel X_train = Inr unsel" and
    hs: "np_hstack acc (Array2 (df_values unsel)) = Inr (Array2 X_train_adj)"
    by blast
  from fit_pairs_blocks[OF fp rows] obtain blocks ce vl where
    l: "length blocks = length pairs" "length ce = length pairs" "length vl = length pairs" and
    c: "ces = ce" "vls = vl" and s: "sel = ?sel" and
    all: "\<forall>i<length pairs.
        adjust_pair sk X X_train (pairs ! i) = Inr (Array2 (blocks ! i), ce ! i, vl ! i)" and
    fin: "pairs = [] \<and> acc = Array1 [] \<or>
      pairs \<noteq> [] \<and> acc = Array2 (array_columns (Array1 []) @ concat blocks) \<and>
        list_all (\<lambda>c. c \<noteq> []) (array_columns (Array1 []) @ concat blocks)"
    by auto
  from fin hs have acc: "acc = Array2 (concat blocks)" and ne: "pairs \<noteq> []"
    by (auto simp: np_hstack_def array_columns_def)
  from hs acc have adj: "X_train_adj = concat blocks @ df_values unsel"
    by (simp add: np_hstack_def)
  have pred: "\<exists>pblocks unsel'.
            length pblocks = length pairs \<and>
            (\<forall>i<length pairs.
               replay_pair X' X_test (pairs ! i) (ces ! i) (vls ! i) = Inr (Array2 (pblocks ! i))) \<and>
            df_drop ?sel X_test = Inr unsel' \<and> m = concat pblocks @ df_values unsel'"
    if h: "drop_configured (A self') X' = Inr X1' \<and> drop_configured (C self') X1' = Inr X_test \<and>
         has_rows X_test \<and> predict_features self' X' = Inr (Array2 m, ct)"
    for X' X1' X_test m ct
  proof -
    have cfg': "subset_param self' = SubsetTuple pairs" "C self' = Some c_names"
      using cfg by (simp_all add: self')
    from h have h1: "drop_configured (A self') X' = Inr X1'"
      and h2: "drop_configured (C self') X1' = Inr X_test"
      and h3: "has_rows X_test" and h4: "predict_features self' X' = Inr (Array2 m, ct)"
      by simp_all
    from predict_features_tuple[OF cfg' h1 h2 h4] obtain pacc unsel' where
      pp: "predict_pairs X' X_test pairs ces vls (Array1 []) = Inr pacc" and
      pd: "df_drop sel X_test = Inr unsel'" and
      ph: "np_hstack pacc (Array2 (df_values unsel')) = Inr (Array2 m)"
      by (auto simp: self')
    from predict_pairs_blocks[OF pp h3] l c obtain pblocks where
      pl: "length pblocks = length pairs" and
      pall: "\<forall>i<length pairs.
        replay_pair X' X_test (pairs ! i) (ces ! i) (vls ! i) = Inr (Array2 (pblocks ! i))" and
      pfin: "pacc = (if pairs = [] then Array1 [] else Array2 (array_columns (Array1 []) @ concat pblocks))"
      by auto
    from pfin ne have "pacc = Array2 (concat pblocks)" by (simp add: array_columns_def)
    with ph have "m = concat pblocks @ df_values unsel'" by (simp add: np_hstack_def)
    with pl pall pd s show ?thesis by blast
  qed
  have "col_ests self' = Some ces" "values_list self' = Some vls" "sel_subset self' = Some ?sel"
    by (simp_all add: self' s)
  moreover have "length ces = length pairs" "length vls = length pairs"
    using l c by simp_all
  moreover have "\<forall>i<length pairs.
         adjust_pair sk X X_train (pairs ! i) = Inr (Array2 (blocks ! i), ces ! i, vls ! i)"
    using all c by simp
  moreover have "df_drop ?sel X_train = Inr unsel" using dr s by simp
  ultimately show ?thesis using l(1) adj pred by blast
qed

lemma example_partitioned_fit:
  "fit_features covariate_sklearn example_partitioned example_X2 =
     (Inr (Array2 [[- 1 / 10, 9 / 5], [9 / 10, 4 / 5], [6 / 5, - 2 / 5], [17 / 10, 8 / 5], [5, 6]],
           Some (Array2 [[1, 2], [3, 4]])),
      example_partitioned_fitted)"
  unfolding example_partitioned_fitted_def
  by (simp add: fit_features_def init_def X_adj_fit_def column_value_ternary
      example_defs frame_defs numpy_defs)

lemma example_partitioned_predict:
  "predict_features example_partitioned_fitted example_X2 =
     Inr (Array2 [[- 1 / 10, 9 / 5], [9 / 10, 4 / 5], [6 / 5, - 2 / 5], [17 / 10, 8 / 5], [5, 6]],
          Some (Array2 [[1, 2], [3, 4]]))"
  unfolding example_partitioned_fitted_def
  by (simp add: fit_features_def predict_features_def init_def X_adj_fit_def X_adj_predict_def
      getattr_def column_value_ternary example_defs frame_defs numpy_defs)

theorem C5_partitioned_subset_witness:
  "has_rows [(''N6'', [0, 2]), (''N7'', [1, 1]), (''N8'', [3 / 2, 0]), (''N9'', [2, 2]),
             (''N10'', [5, 6])] \<and>
   fit_features covariate_sklearn example_partitioned example_X2 =
     (Inr (Array2 [[- 1 / 10, 9 / 5], [9 / 10, 4 / 5], [6 / 5, - 2 / 5], [17 / 10, 8 / 5], [5, 6]],
           Some (Array2 [[1, 2], [3, 4]])),
      example_partitioned_fitted) \<and>
   sel_subset example_partitioned_fitted = Some [''N6'', ''N7'', ''N8'', ''N9''] \<and>
   (\<exists>blocks unsel.
      length blocks = 2 \<and>
      df_drop [''N6'', ''N7'', ''N8'', ''N9'']
        [(''N6'', [0, 2]), (''N7'', [1, 1]), (''N8'', [3 / 2, 0]), (''N9'', [2, 2]),
         (''N10'', [5, 6])] = Inr unsel \<and>
      [[- 1 / 10, 9 / 5], [9 / 10, 4 / 5], [6 / 5, - 2 / 5], [17 / 10, 8 / 5], [5, 6]] =
        concat blocks @ df_values unsel) \<and>
   predict_features example_partitioned_fitted example_X2 =
     Inr (Array2 [[- 1 / 10, 9 / 5], [9 / 10, 4 / 5], [6 / 5, - 2 / 5], [17 / 10, 8 / 5], [5, 6]],
          Some (Array2 [[1, 2], [3, 4]])) \<and>
   (\<exists>pblocks unsel'.
      length pblocks = 2 \<and>
      df_drop [''N6'', ''N7'', ''N8'', ''N9'']
        [(''N6'', [0, 2]), (''N7'', [1, 1]), (''N8'', [3 / 2, 0]), (''N9'', [2, 2]),
         (''N10'', [5, 6])] = Inr unsel' \<and>
      [[- 1 / 10, 9 / 5], [9 / 10, 4 / 5], [6 / 5, - 2 / 5], [17 / 10, 8 / 5], [5, 6]] =
        concat pblocks @ df_values unsel')"
proof -
  let ?Xt = "[(''N6'', [0, 2 :: real]), (''N7'', [1, 1]), (''N8'', [3 / 2, 0]), (''N9'', [2, 2]),
             (''N10'', [5, 6])]"
  have cfg: "subset_param example_partitioned = SubsetTuple example_pairs"
    "C example_partitioned = Some [''N1'', ''N2'']"
    by (simp_all add: example_partitioned_def init_def)
  have X1: "drop_configured (A example_partitioned) example_X2 = Inr example_X2"
    by (simp add: example_partitioned_def init_def drop_configured_def)
  have Xt: "drop_configured (C example_partitioned) example_X2 = Inr ?Xt"
    by (simp add: example_defs init_def frame_defs)
  have rows: "has_rows ?Xt" by (simp add: has_rows_def)
  have sel: "concat (map (\<lambda>p. comm_features (snd p) ?Xt) example_pairs) =
      [''N6'', ''N7'', ''N8'', ''N9'']"
    by (simp add: example_defs frame_defs)
  let ?M = "[[- 1 / 10, 9 / 5], [9 / 10, 4 / 5], [6 / 5, - 2 / 5], [17 / 10, 8 / 5], [5, 6 :: real]]"
  have cfg': "A example_partitioned_fitted = None"
    "C example_partitioned_fitted = Some [''N1'', ''N2'']"
    unfolding example_partitioned_fitted_def
    by (simp_all add: fit_features_def init_def X_adj_fit_def column_value_ternary
        example_defs frame_defs numpy_defs)
  have X1': "drop_configured (A example_partitioned_fitted) example_X2 = Inr example_X2"
    by (simp add: cfg' drop_configured_def)
  have Xt': "drop_configured (C example_partitioned_fitted) example_X2 = Inr ?Xt"
    by (simp add: cfg' example_defs frame_defs)
  from C5_partitioned_subset[OF cfg X1 Xt rows example_partitioned_fit] obtain blocks ces vls unsel where
    f: "sel_subset example_partitioned_fitted =
       Some (concat (map (\<lambda>p. comm_features (snd p) ?Xt) example_pairs))"
    "length blocks = length example_pairs"
    "df_drop (concat (map (\<lambda>p. comm_features (snd p) ?Xt) example_pairs)) ?Xt = Inr unsel"
    "?M = concat blocks @ df_values unsel" and
    p: "\<forall>X' X1' X_test m ct.
         drop_configured (A example_partitioned_fitted) X' = Inr X1' \<and>
         drop_configured (C example_partitioned_fitted) X1' = Inr X_test \<and>
         has_rows X_test \<and> predict_features example_partitioned_fitted X' = Inr (Array2 m, ct) \<longrightarrow>
         (\<exists>pblocks unsel'.
            length pblocks = length example_pairs \<and>
            (\<forall>i<length example_pairs.
               replay_pair X' X_test (example_pairs ! i) (ces ! i) (vls ! i) =
                 Inr (Array2 (pblocks ! i))) \<and>
            df_drop (concat (map (\<lambda>p. comm_features (snd p) ?Xt) example_pairs)) X_test =
              Inr unsel' \<and>
            m = concat pblocks @ df_values unsel')"
    by blast
  from p[rule_format, of example_X2 example_X2 ?Xt ?M "Some (Array2 [[1, 2], [3, 4]])"]
    X1' Xt' rows example_partitioned_predict
  obtain pblocks unsel' where
    "length pblocks = length example_pairs"
    "df_drop (concat (map (\<lambda>p. comm_features (snd p) ?Xt) example_pairs)) ?Xt = Inr unsel'"
    "?M = concat pblocks @ df_values unsel'"
    by blast
  then have "length pblocks = 2" "df_drop [''N6'', ''N7'', ''N8'', ''N9''] ?Xt = Inr unsel'"
    "?M = concat pblocks @ df_values unsel'"
    unfolding sel by (simp_all add: example_pairs_def)
  then have pw: "\<exists>pblocks unsel'.
      length pblocks = 2 \<and> df_drop [''N6'', ''N7'', ''N8'', ''N9''] ?Xt = Inr unsel' \<and>
      ?M = concat pblocks @ df_values unsel'"
    by blast
  from f have a: "sel_subset example_partitioned_fitted = Some [''N6'', ''N7'', ''N8'', ''N9'']"
    and b: "length blocks = 2"
    and c: "df_drop [''N6'', ''N7'', ''N8'', ''N9''] ?Xt = Inr unsel"
    and d: "[[- 1 / 10, 9 / 5], [9 / 10, 4 / 5], [6 / 5, - 2 / 5], [17 / 10, 8 / 5], [5, 6]] =
        concat blocks @ df_values unsel"
    unfolding sel by (simp_all add: example_pairs_def)
  from b c d have "\<exists>blocks unsel.
      length blocks = 2 \<and> df_drop [''N6'', ''N7'', ''N8'', ''N9''] ?Xt = Inr unsel \<and>
      [[- 1 / 10, 9 / 5], [9 / 10, 4 / 5], [6 / 5, - 2 / 5], [17 / 10, 8 / 5], [5, 6]] =
        concat blocks @ df_values unsel"
    by blast
  with a rows example_partitioned_fit example_partitioned_predict pw show ?thesis by blast
qed

section \<open>A flat \<open>subset\<close> that names an absent column\<close>

lemma example_flat_fit:
  "MetaRegressor_fit example_sklearn example_flat example_X [5, 7, 9] = (Inr (), example_flat_fitted)"
  unfolding example_flat_fitted_def
  by (simp add: MetaRegressor_fit_def fit_features_def fit_covariates_def init_def X_adj_fit_def
      column_value_ternary example_defs frame_defs numpy_defs)

text \<open>
  C4. Frame with the covariate \<open>N1\<close> and the features \<open>N6\<close>, \<open>N7\<close>, \<open>N8\<close>; flat
  \<^verbatim>\<open>subset\<close> \<open>[N6, N7, X9]\<close>. In \<^verbatim>\<open>fit\<close> the absent name is ignored: the adjusted group
  is \<open>N6, N7\<close> and the feature matrix is adjusted \<open>N6\<close>, adjusted \<open>N7\<close>, \<open>N8\<close>, and
  \<^verbatim>\<open>fit\<close> succeeds. \<^verbatim>\<open>predict\<close> on the same frame raises \<^verbatim>\<open>KeyError\<close>: it drops the
  configured list, \<open>X9\<close> included, from the feature block.
\<close>

theorem C4_flat_subset_predict_raises_KeyError:
  "comm_features [''N6'', ''N7'', ''X9'']
     [(''N6'', [0, 2, 1]), (''N7'', [1, 1, 0]), (''N8'', [3 / 2, 0, 1 / 2])] = [''N6'', ''N7''] \<and>
   fst (fit_features example_sklearn example_flat example_X) =
     Inr (Array2 [[- 3 / 4, 5 / 4, 1 / 4], [1 / 4, 1 / 4, - 3 / 4], [3 / 2, 0, 1 / 2]],
          Some (Array2 [[1, 2, 3]])) \<and>
   MetaRegressor_fit example_sklearn example_flat example_X [5, 7, 9] =
     (Inr (), example_flat_fitted) \<and>
   predict_features example_flat_fitted example_X = Inl KeyError \<and>
   MetaRegressor_predict example_sklearn example_flat_fitted example_X =
     (Inl KeyError, example_flat_fitted)"
proof -
  have "predict_features example_flat_fitted example_X = Inl KeyError"
    unfolding example_flat_fitted_def
    by (simp add: MetaRegressor_fit_def fit_features_def fit_covariates_def predict_features_def
        init_def X_adj_fit_def column_value_ternary example_defs frame_defs numpy_defs)
  moreover from this
  have "MetaRegressor_predict example_sklearn example_flat_fitted example_X =
     (Inl KeyError, example_flat_fitted)"
    by (simp add: MetaRegressor_predict_def)
  moreover have "fst (fit_features example_sklearn example_flat example_X) =
     Inr (Array2 [[- 3 / 4, 5 / 4, 1 / 4], [1 / 4, 1 / 4, - 3 / 4], [3 / 2, 0, 1 / 2]],
          Some (Array2 [[1, 2, 3]]))"
    by (simp add: fit_features_def init_def X_adj_fit_def
        column_value_ternary example_defs frame_defs numpy_defs)
  ultimately show ?thesis
    using example_flat_fit by (simp add: comm_features_def df_columns_def)
qed

end
